theory Spec2Isabelle
  imports Main "HOL-Library.Sublist"
begin

section \<open>Python values\<close>

text \<open>
  Workflow state, event payloads and LLM output are Python dictionaries holding
  arbitrary JSON-like values. A dictionary nested inside a value is an association
  list (looked up with \<open>map_of\<close>); the top-level workflow state, whose key order
  never matters, is a map. A float is kept as the pair (mantissa, decimal exponent);
  the code copies floats, tests them for zero and compares them with integers.
\<close>

datatype pyval =
    PNone
  | PBool bool
  | PInt int
  | PFloat int int
  | PStr string
  | PList "pyval list"
  | PDict "(string \<times> pyval) list"

type_synonym pydict = "(string \<times> pyval) list"

text \<open>Python truthiness (\<open>bool(v)\<close>).\<close>

fun truthy :: "pyval \<Rightarrow> bool" where
  "truthy PNone = False"
| "truthy (PBool b) = b"
| "truthy (PInt n) = (n \<noteq> 0)"
| "truthy (PFloat m e) = (m \<noteq> 0)"
| "truthy (PStr s) = (s \<noteq> [])"
| "truthy (PList xs) = (xs \<noteq> [])"
| "truthy (PDict d) = (d \<noteq> [])"

text \<open>\<open>d.get(k)\<close> yields \<open>None\<close> for a missing key, \<open>d.get(k, default)\<close> the default.\<close>

definition dict_get :: "pydict \<Rightarrow> string \<Rightarrow> pyval" where
  "dict_get d k = (case map_of d k of None \<Rightarrow> PNone | Some v \<Rightarrow> v)"

definition dict_get_default :: "pydict \<Rightarrow> string \<Rightarrow> pyval \<Rightarrow> pyval" where
  "dict_get_default d k dflt = (case map_of d k of None \<Rightarrow> dflt | Some v \<Rightarrow> v)"

text \<open>\<open>a or b\<close> on values.\<close>

definition py_or :: "pyval \<Rightarrow> pyval \<Rightarrow> pyval" where
  "py_or a b = (if truthy a then a else b)"

datatype py_error =
    AttributeError
  | TypeError

definition field_of :: "pyval \<Rightarrow> string \<Rightarrow> pyval" where
  "field_of v k = (case v of PDict d \<Rightarrow> dict_get d k | _ \<Rightarrow> PNone)"

section \<open>Strings\<close>

text \<open>
  Python strings are modelled as \<open>string\<close>. Case conversion and whitespace are
  those of the ASCII range; \<open>sub in s\<close> is contiguous containment.
\<close>

definition upper_letters :: string where
  "upper_letters = ''ABCDEFGHIJKLMNOPQRSTUVWXYZ''"

definition lower_letters :: string where
  "lower_letters = ''abcdefghijklmnopqrstuvwxyz''"

definition lower_char :: "char \<Rightarrow> char" where
  "lower_char c =
     (case map_of (zip upper_letters lower_letters) c of Some d \<Rightarrow> d | None \<Rightarrow> c)"

definition upper_char :: "char \<Rightarrow> char" where
  "upper_char c =
     (case map_of (zip lower_letters upper_letters) c of Some d \<Rightarrow> d | None \<Rightarrow> c)"

definition str_lower :: "string \<Rightarrow> string" where
  "str_lower s = map lower_char s"

definition str_upper :: "string \<Rightarrow> string" where
  "str_upper s = map upper_char s"

definition contains :: "string \<Rightarrow> string \<Rightarrow> bool" where
  "contains sub s = sublist sub s"

definition is_space :: "char \<Rightarrow> bool" where
  "is_space c = (c \<in> set [CHR 0x09, CHR 0x0A, CHR 0x0B, CHR 0x0C, CHR 0x0D,
                              CHR 0x1C, CHR 0x1D, CHR 0x1E, CHR 0x1F, CHR 0x20])"

definition str_strip :: "string \<Rightarrow> string" where
  "str_strip s = rev (dropWhile is_space (rev (dropWhile is_space s)))"

text \<open>A UUID is the 128-bit number it stands for.\<close>

type_synonym uuid = nat

section \<open>Graph routing (graph/builder.py)\<close>

text \<open>
  \<open>route_from_verdict\<close> reads \<open>state.get("verdict", {})\<close>, then
  \<open>verdict.get("decision", "needs_more_info")\<close>. A stored verdict that is not a
  dictionary has no \<open>get\<close> (AttributeError). The retry counter is compared with
  \<open>>= 2\<close>: Python compares int, bool and float with an int and raises TypeError
  for the other kinds of value.
\<close>

definition state_verdict :: "(string \<rightharpoonup> pyval) \<Rightarrow> py_error + pydict" where
  "state_verdict state =
     (case state ''verdict'' of
        None \<Rightarrow> Inr []
      | Some (PDict d) \<Rightarrow> Inr d
      | Some _ \<Rightarrow> Inl AttributeError)"

fun ge_two :: "pyval \<Rightarrow> py_error + bool" where
  "ge_two (PInt n) = Inr (n \<ge> 2)"
| "ge_two (PBool b) = Inr False"
| "ge_two (PFloat m e) = Inr (if e \<ge> 0 then m * 10 ^ nat e \<ge> 2 else m \<ge> 2 * 10 ^ nat (- e))"
| "ge_two _ = Inl TypeError"

definition route_from_verdict :: "(string \<rightharpoonup> pyval) \<Rightarrow> py_error + string" where
  "route_from_verdict state =
     (case state_verdict state of
        Inl err \<Rightarrow> Inl err
      | Inr verdict \<Rightarrow>
          (let decision = dict_get_default verdict ''decision'' (PStr ''needs_more_info'') in
           if decision = PStr ''escalate'' then Inr ''human_review''
           else if decision = PStr ''close'' then Inr ''close_investigation''
           else if decision = PStr ''needs_more_info'' then
             (let verdict_retries =
                    (case state ''verdict_retry_count'' of None \<Rightarrow> PInt 0 | Some v \<Rightarrow> v) in
              case ge_two verdict_retries of
                Inl err \<Rightarrow> Inl err
              | Inr True \<Rightarrow> Inr ''human_review''
              | Inr False \<Rightarrow> Inr ''supervisor'')
           else Inr ''human_review''))"

section \<open>LLM response parsing (supervisor/node.py, supervisor/verdict.py)\<close>

text \<open>
  The regular-expression searches and \<open>json.loads\<close> belong to the Python standard
  library; the parsers take them as parameters. \<open>re_fenced_json\<close> is group 1 of the
  first match of the fenced-block pattern, \<open>re_nested_object\<close> and
  \<open>re_greedy_object\<close> are group 0 of the supervisor's and the verdict parser's brace
  patterns (\<open>None\<close>: no match); \<open>json_loads\<close> returns \<open>Inl msg\<close> where Python
  raises \<open>JSONDecodeError(msg)\<close>.
\<close>

record text_lib =
  re_fenced_json :: "string \<Rightarrow> string option"
  re_nested_object :: "string \<Rightarrow> string option"
  re_greedy_object :: "string \<Rightarrow> string option"
  json_loads :: "string \<Rightarrow> string + pyval"

datatype log_level = Debug | Info | Warning | Error

type_synonym log_entry = "log_level \<times> string \<times> pydict"

text \<open>
  \<open>_sanitize_json_string\<close>: one pass over the characters with the two flags
  \<open>in_string\<close> and \<open>escape_next\<close>.
\<close>

fun sanitize_chars :: "bool \<Rightarrow> bool \<Rightarrow> string \<Rightarrow> string" where
  "sanitize_chars in_string escape_next [] = []"
| "sanitize_chars in_string escape_next (c # cs) =
     (if escape_next then c # sanitize_chars in_string False cs
      else if c = CHR 0x5C then c # sanitize_chars in_string True cs
      else if c = CHR 0x22 then c # sanitize_chars (\<not> in_string) False cs
      else if in_string \<and> c = CHR 0x0A then [CHR 0x5C, CHR ''n''] @ sanitize_chars in_string False cs
      else if in_string \<and> c = CHR 0x0D then [CHR 0x5C, CHR ''r''] @ sanitize_chars in_string False cs
      else if in_string \<and> c = CHR 0x09 then [CHR 0x5C, CHR ''t''] @ sanitize_chars in_string False cs
      else c # sanitize_chars in_string False cs)"

definition sanitize_json_string :: "string \<Rightarrow> string" where
  "sanitize_json_string json_str = sanitize_chars False False json_str"

text \<open>The last resort of \<open>_parse_decision_response\<close>: the default dictionary, then the
  loop over the five action names.\<close>

definition decision_last_resort :: "string \<Rightarrow> pyval" where
  "decision_last_resort response_text =
     PDict [(''next_action'',
               PStr (case find (\<lambda>action. contains action (str_upper response_text))
                            [''VERDICT'', ''CLOSE'', ''INVESTIGATE'', ''CONTEXTUALIZE'', ''ENRICH'']
                     of Some action \<Rightarrow> action | None \<Rightarrow> ''ENRICH'')),
            (''action_reasoning'', PStr ''Failed to parse LLM response''),
            (''tp_confidence'', PFloat 5 (- 1)),
            (''confidence_reasoning'', PStr ''Unable to determine''),
            (''specific_instructions'', PStr [])]"

definition parse_decision_response :: "text_lib \<Rightarrow> string \<Rightarrow> pyval \<times> log_entry list" where
  "parse_decision_response lib response_text =
     (let (r1, log1) =
            (case re_fenced_json lib response_text of
               None \<Rightarrow> (None, [])
             | Some g \<Rightarrow>
                 (case json_loads lib (sanitize_json_string g) of
                    Inr result \<Rightarrow> (Some result, [(Debug, ''parsed_json_from_markdown_block'', [])])
                  | Inl e \<Rightarrow>
                      (None, [(Warning, ''json_decode_failed_markdown'',
                               [(''error'', PStr e), (''content'', PStr (take 500 g))])])))
      in case r1 of
           Some result \<Rightarrow> (result, log1)
         | None \<Rightarrow>
            (let (r2, log2) =
                   (case re_nested_object lib response_text of
                      None \<Rightarrow> (None, [])
                    | Some g \<Rightarrow>
                        (case json_loads lib (sanitize_json_string g) of
                           Inr result \<Rightarrow> (Some result, [(Debug, ''parsed_json_from_raw'', [])])
                         | Inl e \<Rightarrow>
                             (None, [(Warning, ''json_decode_failed_raw'',
                                      [(''error'', PStr e), (''content'', PStr (take 500 g))])])))
             in case r2 of
                  Some result \<Rightarrow> (result, log1 @ log2)
                | None \<Rightarrow>
                   (case json_loads lib (sanitize_json_string response_text) of
                      Inr result \<Rightarrow>
                        (result, log1 @ log2 @ [(Debug, ''parsed_json_from_full_response'', [])])
                    | Inl e \<Rightarrow>
                        (decision_last_resort response_text,
                         log1 @ log2 @
                         [(Warning, ''json_decode_failed_full'', [(''error'', PStr e)]),
                          (Error, ''llm_response_parse_failed'',
                           [(''response_text'', PStr (take 1000 response_text)),
                            (''response_length'', PInt (int (length response_text)))])]))))"

text \<open>\<open>_parse_verdict_response\<close> does not sanitize and does not log.\<close>

definition verdict_last_resort :: "string \<Rightarrow> pyval" where
  "verdict_last_resort response_text =
     (let response_lower = str_lower response_text in
      PDict [(''decision'',
                PStr (if contains ''escalate'' response_lower then ''escalate''
                      else if contains ''close'' response_lower
                              \<and> contains ''false positive'' response_lower then ''close''
                      else ''needs_more_info'')),
             (''confidence'', PFloat 5 (- 1)),
             (''threat_assessment'', PStr ''Unable to parse verdict response''),
             (''evidence_strength'', PStr ''weak''),
             (''potential_impact'', PStr ''medium''),
             (''urgency'', PStr ''routine''),
             (''key_evidence'', PList []),
             (''gaps_in_evidence'', PList [PStr ''Failed to parse LLM response'']),
             (''assumptions_made'', PList []),
             (''alternative_explanations'', PList []),
             (''recommendation'', PStr ''Manual review required - verdict parsing failed'')])"

definition parse_verdict_response :: "text_lib \<Rightarrow> string \<Rightarrow> pyval" where
  "parse_verdict_response lib response_text =
     (let r1 = (case re_fenced_json lib response_text of
                  None \<Rightarrow> None
                | Some g \<Rightarrow> (case json_loads lib g of Inr result \<Rightarrow> Some result | Inl e \<Rightarrow> None))
      in case r1 of
           Some result \<Rightarrow> result
         | None \<Rightarrow>
            (let r2 = (case re_greedy_object lib response_text of
                         None \<Rightarrow> None
                       | Some g \<Rightarrow> (case json_loads lib g of Inr result \<Rightarrow> Some result | Inl e \<Rightarrow> None))
             in case r2 of
                  Some result \<Rightarrow> result
                | None \<Rightarrow>
                   (case json_loads lib response_text of
                      Inr result \<Rightarrow> result
                    | Inl e \<Rightarrow> verdict_last_resort response_text)))"

text \<open>
  ``All three extraction attempts fail'': the fenced block, when one is found, does
  not decode; the brace substring, when one is found, does not decode; the whole
  response does not decode.
\<close>

definition decision_attempts_fail :: "text_lib \<Rightarrow> string \<Rightarrow> bool" where
  "decision_attempts_fail lib response_text =
     ((case re_fenced_json lib response_text of
         None \<Rightarrow> True | Some g \<Rightarrow> isl (json_loads lib (sanitize_json_string g)))
      \<and> (case re_nested_object lib response_text of
         None \<Rightarrow> True | Some g \<Rightarrow> isl (json_loads lib (sanitize_json_string g)))
      \<and> isl (json_loads lib (sanitize_json_string response_text)))"

definition verdict_attempts_fail :: "text_lib \<Rightarrow> string \<Rightarrow> bool" where
  "verdict_attempts_fail lib response_text =
     ((case re_fenced_json lib response_text of
         None \<Rightarrow> True | Some g \<Rightarrow> isl (json_loads lib g))
      \<and> (case re_greedy_object lib response_text of
         None \<Rightarrow> True | Some g \<Rightarrow> isl (json_loads lib g))
      \<and> isl (json_loads lib response_text))"

text \<open>The library on a response without backticks and braces that is not JSON: no
  pattern matches and decoding fails.\<close>

definition plain_text_lib :: text_lib where
  "plain_text_lib =
     \<lparr>re_fenced_json = (\<lambda>s. None), re_nested_object = (\<lambda>s. None),
      re_greedy_object = (\<lambda>s. None),
      json_loads = (\<lambda>s. Inl ''Expecting value: line 1 column 1 (char 0)'')\<rparr>"

section \<open>Human review (graph/hil.py, api/routes/review.py, main.py)\<close>

datatype human_decision = APPROVE | REJECT | MORE_INFO

fun decision_value :: "human_decision \<Rightarrow> string" where
  "decision_value APPROVE = ''approve''"
| "decision_value REJECT = ''reject''"
| "decision_value MORE_INFO = ''more_info''"

text \<open>\<open>_coerce_human_decision\<close>: only a string can name a decision; everything else,
  and every unknown string, is \<open>more_info\<close>.\<close>

definition coerce_human_decision :: "pyval \<Rightarrow> human_decision" where
  "coerce_human_decision v =
     (case v of
        PStr s \<Rightarrow>
          (let normalized = str_lower (str_strip s) in
           if normalized = decision_value APPROVE then APPROVE
           else if normalized = decision_value REJECT then REJECT
           else if normalized = decision_value MORE_INFO then MORE_INFO
           else MORE_INFO)
      | _ \<Rightarrow> MORE_INFO)"

text \<open>
  What the node's collaborators do in one execution is an input of the model:
  \<^item> \<open>interrupt(...)\<close> either suspends the graph (it raises \<open>GraphInterrupt\<close>), or, on
    a resume, returns the resume value, or fails with another exception;
  \<^item> the HIL service answers, times out, loses its connection or fails otherwise;
  \<^item> the terminal prompt returns a line, or \<open>input\<close> raises;
  \<^item> \<open>UUID(text)\<close> of the standard library yields the identifier, or raises
    \<open>ValueError\<close> (\<open>uuid_of_str\<close> is then \<open>None\<close>).
\<close>

datatype hil_exception = GraphInterrupt | OtherException string

datatype interrupt_outcome = Suspends | Resumed pyval | InterruptFails string

text \<open>\<open>HILResponse\<close> (hil/models.py), without its two timing fields
  (\<open>responded_at\<close>, \<open>response_time_seconds\<close>), which the node never reads.\<close>

record hil_response =
  resp_investigation_id :: string
  resp_decision :: human_decision
  resp_reviewer :: string
  resp_feedback :: pyval
  resp_backend :: string

datatype service_outcome =
    Responded hil_response
  | HILTimeoutError
  | HILConnectionError string
  | ServiceFails string

record hil_service =
  is_connected :: bool
  approval :: service_outcome

text \<open>The emitter of the run: each of its two calls used here may raise.\<close>

record event_emitter =
  review_request_raises :: bool
  decision_received_raises :: bool

record configurable =
  cfg_event_emitter :: "event_emitter option"
  cfg_hil_service :: "hil_service option"
  cfg_hil_backend :: "string option"

record hil_run =
  run_config :: "configurable option"
  stdin_isatty :: bool
  cli_input :: "string option"
  interrupt_result :: interrupt_outcome
  review_request_data :: "pydict option"
  models_valid :: bool
  now_iso :: string
  uuid_of_str :: "string \<Rightarrow> uuid option"

text \<open>The investigation id handed to the emitter: the UUID read from a string, or the
  value found in the state when it is not a string.\<close>

datatype investigation_ref = UUIDRef uuid | ValueRef pyval

text \<open>A call made on the emitter: event type, investigation id, payload.\<close>

type_synonym emitter_call = "string \<times> investigation_ref \<times> pydict"

definition HUMAN_REVIEW_REQUESTED :: string where
  "HUMAN_REVIEW_REQUESTED = ''human.review_requested''"

definition HUMAN_DECISION_RECEIVED :: string where
  "HUMAN_DECISION_RECEIVED = ''human.decision_received''"

definition get_emitter_from_config :: "configurable option \<Rightarrow> event_emitter option" where
  "get_emitter_from_config config =
     (case config of None \<Rightarrow> None | Some c \<Rightarrow> cfg_event_emitter c)"

text \<open>\<open>get_investigation_id_from_state\<close>: the truthy \<open>id\<close> of a dictionary stored under
  \<open>investigation\<close>; a string is read as a UUID, which raises \<open>ValueError\<close> when the
  string is not one.\<close>

definition get_investigation_id_from_state ::
  "(string \<Rightarrow> uuid option) \<Rightarrow> (string \<rightharpoonup> pyval)
     \<Rightarrow> hil_exception + investigation_ref option" where
  "get_investigation_id_from_state UUID state =
     (case (case state ''investigation'' of None \<Rightarrow> PDict [] | Some v \<Rightarrow> v) of
        PDict investigation \<Rightarrow>
          (let inv_id = dict_get investigation ''id'' in
           if truthy inv_id then
             (case inv_id of
                PStr text \<Rightarrow>
                  (case UUID text of
                     None \<Rightarrow> Inl (OtherException ''ValueError'')
                   | Some u \<Rightarrow> Inr (Some (UUIDRef u)))
              | _ \<Rightarrow> Inr (Some (ValueRef inv_id)))
           else Inr None)
      | _ \<Rightarrow> Inr None)"

definition prompt_cli_decision :: "string option \<Rightarrow> hil_exception + (human_decision \<times> pyval)" where
  "prompt_cli_decision line =
     (case line of
        None \<Rightarrow> Inl (OtherException ''EOFError'')
      | Some l \<Rightarrow>
          (let choice = str_lower (str_strip l) in
           if choice \<in> set [''a'', ''approve''] then Inr (APPROVE, PNone)
           else if choice \<in> set [''r'', ''reject''] then Inr (REJECT, PNone)
           else Inr (MORE_INFO, PNone)))"

text \<open>\<open>_handle_noninteractive_review\<close> returns (decision, feedback, reviewer,
  emit\_event).\<close>

definition handle_noninteractive_review ::
  "string \<Rightarrow> bool \<Rightarrow> string option \<Rightarrow> interrupt_outcome
     \<Rightarrow> hil_exception + (human_decision \<times> pyval \<times> pyval \<times> bool)" where
  "handle_noninteractive_review hil_backend isatty line interrupted =
     (if hil_backend = ''cli'' \<and> isatty then
        (case prompt_cli_decision line of
           Inl e \<Rightarrow> Inl e
         | Inr (decision, feedback) \<Rightarrow> Inr (decision, feedback, PNone, True))
      else
        (case interrupted of
           Suspends \<Rightarrow> Inl GraphInterrupt
         | InterruptFails e \<Rightarrow>
             Inr (MORE_INFO, PStr ''HIL interrupt failed - manual follow-up required'', PNone, True)
         | Resumed resume_value \<Rightarrow>
             (let payload = (case resume_value of PDict d \<Rightarrow> d | _ \<Rightarrow> [(''decision'', resume_value)]);
                  decision_str = dict_get payload ''decision'';
                  decision = coerce_human_decision decision_str;
                  feedback = dict_get payload ''feedback'';
                  reviewer = dict_get payload ''reviewer'';
                  source = dict_get payload ''source'';
                  emit_event = (source \<notin> set [PStr ''dashboard'', PStr ''ui''])
              in Inr (decision, feedback, reviewer, emit_event))))"

definition present_via_hil_service :: "hil_service \<Rightarrow> hil_exception + (human_decision \<times> pyval)" where
  "present_via_hil_service service =
     (case approval service of
        Responded response \<Rightarrow> Inr (resp_decision response, resp_feedback response)
      | HILTimeoutError \<Rightarrow> Inr (MORE_INFO, PStr ''HIL review timed out - please review manually'')
      | HILConnectionError e \<Rightarrow> Inr (MORE_INFO, PStr (''HIL connection error: '' @ e))
      | ServiceFails e \<Rightarrow> Inl (OtherException e))"

datatype node_result = Returns "string \<rightharpoonup> pyval" | Raises hil_exception

definition REVIEW_FLAG :: string where
  "REVIEW_FLAG = ''_human_review_requested_emitted''"

text \<open>
  \<open>human_review_node\<close>. The result is the list of calls made on the emitter, in order,
  and either the returned state or the exception that leaves the node. Building the
  payload of the review request (\<open>str\<close> and \<open>float\<close> of the verdict fields) and the
  construction of the \<open>Investigation\<close> and \<open>Verdict\<close> models are inputs
  (\<open>review_request_data\<close>, \<open>None\<close> when building raises; \<open>models_valid\<close>).
  The \<open>ValueError\<close> of an id that is not a UUID leaves the node before anything is
  emitted.
\<close>

definition human_review_node ::
  "hil_run \<Rightarrow> (string \<rightharpoonup> pyval) \<Rightarrow> emitter_call list \<times> node_result" where
  "human_review_node run state0 =
     (let state1 = state0(''awaiting_human_approval'' \<mapsto> PBool True);
          emitter = get_emitter_from_config (run_config run)
      in case get_investigation_id_from_state (uuid_of_str run) state1 of
           Inl e \<Rightarrow> ([], Raises e)
         | Inr investigation_id \<Rightarrow>
          (let flag = (case state1 REVIEW_FLAG of None \<Rightarrow> False | Some v \<Rightarrow> truthy v);
               (calls1, state2) =
                 (case (emitter, investigation_id) of
                    (Some em, Some inv_id) \<Rightarrow>
                      (if flag then ([], state1)
                       else (case review_request_data run of
                               None \<Rightarrow> ([], state1)
                             | Some data \<Rightarrow>
                                 ([(HUMAN_REVIEW_REQUESTED, inv_id, data)],
                                  if review_request_raises em then state1
                                  else state1(REVIEW_FLAG \<mapsto> PBool True))))
                  | _ \<Rightarrow> ([], state1))
           in if \<not> models_valid run then (calls1, Raises (OtherException ''ValidationError''))
              else
               (let service = (case run_config run of None \<Rightarrow> None | Some c \<Rightarrow> cfg_hil_service c);
                    hil_backend =
                      (case run_config run of
                         None \<Rightarrow> ''cli''
                       | Some c \<Rightarrow> (case cfg_hil_backend c of
                                     None \<Rightarrow> ''cli''
                                   | Some b \<Rightarrow> if b = [] then ''cli'' else b));
                    reviewed =
                      (case service of
                         Some svc \<Rightarrow>
                           (if is_connected svc then
                              (case present_via_hil_service svc of
                                 Inl e \<Rightarrow> Inl e
                               | Inr (decision, feedback) \<Rightarrow> Inr (decision, feedback, PNone, True))
                            else handle_noninteractive_review hil_backend (stdin_isatty run)
                                   (cli_input run) (interrupt_result run))
                       | None \<Rightarrow>
                           handle_noninteractive_review hil_backend (stdin_isatty run)
                             (cli_input run) (interrupt_result run))
                in case reviewed of
                     Inl GraphInterrupt \<Rightarrow> (calls1, Raises GraphInterrupt)
                   | Inl (OtherException e) \<Rightarrow>
                       (calls1,
                        Returns (state2(''human_decision'' \<mapsto> PStr (decision_value MORE_INFO),
                                        ''human_feedback'' \<mapsto> PStr (''Error during review: '' @ e),
                                        ''awaiting_human_approval'' \<mapsto> PBool False,
                                        ''last_updated'' \<mapsto> PStr (now_iso run))))
                   | Inr (decision, feedback, reviewer, emit_decision_event) \<Rightarrow>
                       (let state3 = state2(''human_decision'' \<mapsto> PStr (decision_value decision),
                                            ''human_feedback'' \<mapsto> feedback,
                                            ''awaiting_human_approval'' \<mapsto> PBool False);
                            calls2 =
                              (case (emitter, investigation_id) of
                                 (Some em, Some inv_id) \<Rightarrow>
                                   (if emit_decision_event then
                                      [(HUMAN_DECISION_RECEIVED, inv_id,
                                        [(''decision'', PStr (decision_value decision)),
                                         (''feedback'', feedback),
                                         (''reviewer'', reviewer)])]
                                    else [])
                               | _ \<Rightarrow> [])
                        in (calls1 @ calls2,
                            Returns (state3(''last_updated'' \<mapsto> PStr (now_iso run))))))))"

text \<open>
  A run is a resume carrying \<open>payload\<close> when the node reaches \<open>interrupt\<close> (the id
  of the investigation is read without an error, the models are built, there is no
  connected HIL service and no interactive terminal prompt) and \<open>interrupt\<close> returns
  the payload.
\<close>

definition reaches_interrupt :: "hil_run \<Rightarrow> (string \<rightharpoonup> pyval) \<Rightarrow> bool" where
  "reaches_interrupt run state =
     ((case get_investigation_id_from_state (uuid_of_str run) state of
         Inl e \<Rightarrow> False | Inr investigation_id \<Rightarrow> True)
      \<and> models_valid run
      \<and> (case run_config run of
            None \<Rightarrow> \<not> stdin_isatty run
          | Some c \<Rightarrow>
              (case cfg_hil_service c of None \<Rightarrow> True | Some svc \<Rightarrow> \<not> is_connected svc)
              \<and> \<not> ((case cfg_hil_backend c of None \<Rightarrow> True | Some b \<Rightarrow> b = [] \<or> b = ''cli'')
                    \<and> stdin_isatty run)))"

definition resumed_with :: "hil_run \<Rightarrow> (string \<rightharpoonup> pyval) \<Rightarrow> pyval \<Rightarrow> bool" where
  "resumed_with run state payload =
     (reaches_interrupt run state \<and> interrupt_result run = Resumed payload)"

definition count_calls :: "string \<Rightarrow> emitter_call list \<Rightarrow> nat" where
  "count_calls event_type calls = length (filter (\<lambda>c. fst c = event_type) calls)"

text \<open>
  The dashboard side. A REST handler finds the review, refuses it unless it is
  pending, and appends its events through the projecting store (\<open>approve\<close> and
  \<open>request-info\<close> one event, \<open>reject\<close> a batch of two). The projection of
  \<open>HUMAN_DECISION_RECEIVED\<close> moves the pending review out of \<open>pending\<close>; the resume
  loop of the orchestrator then builds the resume payload from the review. (The
  direct update of the investigation row made by the \<open>approve\<close> handler is not part
  of this model.)
\<close>

record pending_review =
  review_investigation_id :: uuid
  review_status :: string
  review_reviewer :: pyval
  review_feedback :: pyval

datatype http_error = NotFound | Conflict

datatype review_action = Approve | Reject | RequestInfo "string list"

fun str_join :: "string \<Rightarrow> string list \<Rightarrow> string" where
  "str_join sep [] = []"
| "str_join sep [x] = x"
| "str_join sep (x # y # ys) = x @ sep @ str_join sep (y # ys)"

definition questions_feedback :: "string list \<Rightarrow> string" where
  "questions_feedback questions =
     (''Additional information requested:'' @ [CHR 0x0A])
       @ str_join [CHR 0x0A] (map (\<lambda>q. ''- '' @ q) questions)"

definition review_endpoint ::
  "review_action \<Rightarrow> pyval \<Rightarrow> pyval \<Rightarrow> int \<Rightarrow> pending_review option
     \<Rightarrow> http_error + emitter_call list" where
  "review_endpoint action reviewer feedback duration_seconds found =
     (case found of
        None \<Rightarrow> Inl NotFound
      | Some review \<Rightarrow>
          if review_status review \<noteq> ''pending'' then Inl Conflict
          else
            (let agg = UUIDRef (review_investigation_id review) in
             case action of
               Approve \<Rightarrow>
                 Inr [(HUMAN_DECISION_RECEIVED, agg,
                       [(''decision'', PStr ''approve''), (''feedback'', feedback),
                        (''reviewer'', reviewer)])]
             | Reject \<Rightarrow>
                 Inr [(HUMAN_DECISION_RECEIVED, agg,
                       [(''decision'', PStr ''reject''), (''feedback'', feedback),
                        (''reviewer'', reviewer)]),
                      (''investigation.closed'', agg,
                       [(''status'', PStr ''closed''),
                        (''resolution'', PStr ''closed by human review''),
                        (''verdict_decision'', PStr ''close''),
                        (''thehive_case_id'', PNone),
                        (''duration_seconds'', PInt duration_seconds)])]
             | RequestInfo questions \<Rightarrow>
                 Inr [(HUMAN_DECISION_RECEIVED, agg,
                       [(''decision'', PStr ''more_info''),
                        (''feedback'', PStr (questions_feedback questions)),
                        (''reviewer'', reviewer)])]))"

text \<open>\<open>_project_human_decision_received\<close> on the pending review of the aggregate. The
  status column holds text: for a decision that is not a string the model writes
  \<open>unknown\<close>.\<close>

definition project_human_decision_received :: "pydict \<Rightarrow> pending_review \<Rightarrow> pending_review" where
  "project_human_decision_received data review =
     (let decision = dict_get_default data ''decision'' (PStr ''unknown'');
          status = (if decision = PStr ''approve'' then ''approved''
                    else if decision = PStr ''reject'' then ''rejected''
                    else if decision = PStr ''more_info'' then ''info_requested''
                    else (case decision of PStr s \<Rightarrow> s | _ \<Rightarrow> ''unknown''));
          review1 = review\<lparr>review_status := status\<rparr>;
          review2 = (if map_of data ''reviewer'' \<noteq> None
                     then review1\<lparr>review_reviewer := dict_get data ''reviewer''\<rparr> else review1)
      in if map_of data ''feedback'' \<noteq> None
         then review2\<lparr>review_feedback := dict_get data ''feedback''\<rparr> else review2)"

text \<open>The payload built by \<open>_resume_decided_reviews_once\<close>.\<close>

definition resume_payload :: "pending_review \<Rightarrow> pyval" where
  "resume_payload review =
     PDict [(''decision'',
               PStr (case map_of [(''approved'', ''approve''), (''rejected'', ''reject''),
                                  (''info_requested'', ''more_info'')] (review_status review)
                     of Some d \<Rightarrow> d | None \<Rightarrow> ''more_info'')),
            (''feedback'', review_feedback review),
            (''reviewer'', review_reviewer review),
            (''source'', PStr ''dashboard'')]"




text \<open>
  A reading of \<open>UUID(text)\<close> on the hyphenated and the plain form of 32 hexadecimal
  digits (\<open>str(uuid4())\<close> has the first form); it is the \<open>uuid_of_str\<close> of the concrete
  runs below.
\<close>

definition hex_digit :: "char \<Rightarrow> nat option" where
  "hex_digit c =
     map_of [(CHR ''0'', 0), (CHR ''1'', 1), (CHR ''2'', 2), (CHR ''3'', 3), (CHR ''4'', 4),
             (CHR ''5'', 5), (CHR ''6'', 6), (CHR ''7'', 7), (CHR ''8'', 8), (CHR ''9'', 9),
             (CHR ''a'', 10), (CHR ''b'', 11), (CHR ''c'', 12), (CHR ''d'', 13),
             (CHR ''e'', 14), (CHR ''f'', 15),
             (CHR ''A'', 10), (CHR ''B'', 11), (CHR ''C'', 12), (CHR ''D'', 13),
             (CHR ''E'', 14), (CHR ''F'', 15)] c"

fun hex_value :: "nat \<Rightarrow> string \<Rightarrow> nat option" where
  "hex_value acc [] = Some acc"
| "hex_value acc (c # cs) =
     (case hex_digit c of None \<Rightarrow> None | Some d \<Rightarrow> hex_value (16 * acc + d) cs)"

definition uuid_of_hex :: "string \<Rightarrow> uuid option" where
  "uuid_of_hex text =
     (let hex = filter (\<lambda>c. c \<noteq> CHR ''-'') text
      in if length hex \<noteq> 32 then None else hex_value 0 hex)"

text \<open>
  A concrete dashboard approval of the review of investigation
  \<open>6f1c2d3e-4a5b-4c6d-8e7f-0a1b2c3d4e5f\<close>: the pending review, the review after the
  handler's event has been projected, and the two ways in which the node can learn of
  the decision: resumed by the orchestrator (no chat service), or answered by the
  connected chat service whose poll found the review approved.
\<close>

definition inv_id_text :: string where
  "inv_id_text = ''6f1c2d3e-4a5b-4c6d-8e7f-0a1b2c3d4e5f''"

definition inv_uuid :: uuid where
  "inv_uuid = 0x6f1c2d3e4a5b4c6d8e7f0a1b2c3d4e5f"

definition open_review :: pending_review where
  "open_review =
     \<lparr>review_investigation_id = inv_uuid, review_status = ''pending'',
      review_reviewer = PNone, review_feedback = PNone\<rparr>"

definition approved_review :: pending_review where
  "approved_review =
     project_human_decision_received
       [(''decision'', PStr ''approve''), (''feedback'', PNone), (''reviewer'', PStr ''alice'')]
       open_review"

definition review_state :: "string \<rightharpoonup> pyval" where
  "review_state =
     [''investigation'' \<mapsto> PDict [(''id'', PStr inv_id_text), (''title'', PStr ''Brute force'')],
      ''verdict'' \<mapsto> PDict [(''decision'', PStr ''escalate''), (''confidence'', PFloat 9 (- 1))]]"

definition dashboard_resume_run :: hil_run where
  "dashboard_resume_run =
     \<lparr>run_config = Some \<lparr>cfg_event_emitter =
                            Some \<lparr>review_request_raises = False,
                                  decision_received_raises = False\<rparr>,
                          cfg_hil_service = None,
                          cfg_hil_backend = Some ''dashboard''\<rparr>,
      stdin_isatty = False,
      cli_input = None,
      interrupt_result = Resumed (resume_payload approved_review),
      review_request_data = None,
      models_valid = True,
      now_iso = ''2025-01-01T00:00:00'',
      uuid_of_str = uuid_of_hex\<rparr>"

definition dashboard_resume_state :: "string \<rightharpoonup> pyval" where
  "dashboard_resume_state = review_state(REVIEW_FLAG \<mapsto> PBool True)"



section \<open>Alerts and investigations (models/)\<close>

text \<open>A \<open>datetime\<close> is the number of microseconds since the epoch; a \<open>timedelta\<close> is a
  number of microseconds.\<close>

type_synonym timestamp = int

definition minutes :: "int \<Rightarrow> int" where
  "minutes n = n * 60000000"

datatype severity = LOW | MEDIUM | HIGH | CRITICAL

fun severity_value :: "severity \<Rightarrow> string" where
  "severity_value LOW = ''low''"
| "severity_value MEDIUM = ''medium''"
| "severity_value HIGH = ''high''"
| "severity_value CRITICAL = ''critical''"

datatype observable_type =
    IP | DOMAIN | URL | HASH_MD5 | HASH_SHA1 | HASH_SHA256 | EMAIL | FILENAME | FQDN
  | USER | PROCESS | REGISTRY_KEY | UNKNOWN

fun observable_type_value :: "observable_type \<Rightarrow> string" where
  "observable_type_value IP = ''ip''"
| "observable_type_value DOMAIN = ''domain''"
| "observable_type_value URL = ''url''"
| "observable_type_value HASH_MD5 = ''hash_md5''"
| "observable_type_value HASH_SHA1 = ''hash_sha1''"
| "observable_type_value HASH_SHA256 = ''hash_sha256''"
| "observable_type_value EMAIL = ''email''"
| "observable_type_value FILENAME = ''filename''"
| "observable_type_value FQDN = ''fqdn''"
| "observable_type_value USER = ''user''"
| "observable_type_value PROCESS = ''process''"
| "observable_type_value REGISTRY_KEY = ''registry_key''"
| "observable_type_value UNKNOWN = ''unknown''"

record observable =
  obs_value :: string
  obs_type :: observable_type
  obs_source :: string

text \<open>\<open>Observable.__eq__\<close> compares value and type only.\<close>

definition observable_eq :: "observable \<Rightarrow> observable \<Rightarrow> bool" where
  "observable_eq a b = (obs_value a = obs_value b \<and> obs_type a = obs_type b)"

record alert_source =
  agent_id :: string
  agent_name :: string
  agent_ip :: "string option"

record alert =
  alert_id :: string
  alert_timestamp :: timestamp
  alert_severity :: severity
  alert_level :: int
  alert_rule_id :: "string option"
  rule_description :: string
  alert_source :: alert_source
  alert_observables :: "observable list"

text \<open>Of an \<open>Investigation\<close> the fields used by the correlator and the queue.\<close>

record investigation =
  inv_id :: string
  inv_title :: string
  inv_alerts :: "alert list"
  inv_observables :: "observable list"

text \<open>Python's \<open>max(xs, key=f)\<close> returns the first element with the greatest key.\<close>

fun max_by_key :: "('a \<Rightarrow> int) \<Rightarrow> 'a \<Rightarrow> 'a list \<Rightarrow> 'a" where
  "max_by_key key best [] = best"
| "max_by_key key best (x # xs) = max_by_key key (if key x > key best then x else best) xs"

fun investigation_severity_order :: "severity \<Rightarrow> int" where
  "investigation_severity_order LOW = 0"
| "investigation_severity_order MEDIUM = 1"
| "investigation_severity_order HIGH = 2"
| "investigation_severity_order CRITICAL = 3"

definition max_severity :: "investigation \<Rightarrow> severity" where
  "max_severity iv =
     (case inv_alerts iv of
        [] \<Rightarrow> LOW
      | a # as \<Rightarrow>
          alert_severity (max_by_key (\<lambda>x. investigation_severity_order (alert_severity x)) a as))"

definition add_alert :: "investigation \<Rightarrow> alert \<Rightarrow> investigation" where
  "add_alert iv a =
     iv\<lparr>inv_alerts := inv_alerts iv @ [a],
         inv_observables :=
           fold (\<lambda>obs acc. if list_ex (observable_eq obs) acc then acc else acc @ [obs])
                (alert_observables a) (inv_observables iv)\<rparr>"

fun digit_char :: "nat \<Rightarrow> char" where
  "digit_char n = (''0123456789'' ! (n mod 10))"

fun str_of_nat :: "nat \<Rightarrow> string" where
  "str_of_nat n = (if n < 10 then [digit_char n] else str_of_nat (n div 10) @ [digit_char n])"

definition generic_descriptions :: "string list" where
  "generic_descriptions = [''no description available'', ''no description'', []]"

definition generate_title :: "investigation \<Rightarrow> string" where
  "generate_title iv =
     (case inv_alerts iv of
        [] \<Rightarrow> ''Empty Investigation''
      | first # rest \<Rightarrow>
          (let found = find (\<lambda>desc. str_lower desc \<notin> set generic_descriptions)
                            (map (\<lambda>a. str_strip (rule_description a)) (inv_alerts iv));
               best_description =
                 (case found of
                    Some desc \<Rightarrow> desc
                  | None \<Rightarrow> if rule_description first \<noteq> [] then rule_description first
                            else ''Security Alert'');
               base = take 50 best_description
           in if length (inv_alerts iv) > 1
              then base @ '' (+'' @ str_of_nat (length (inv_alerts iv) - 1) @ '' related alerts)''
              else base))"

section \<open>Alert correlation (polling/correlator.py)\<close>

record correlator =
  window_minutes :: int

definition group_patterns :: "(string \<times> string) list" where
  "group_patterns =
     [(''sysmon'', ''sysmon''), (''authentication'', ''auth''), (''brute'', ''bruteforce''),
      (''malware'', ''malware''), (''rootkit'', ''rootkit''), (''web'', ''web_attack''),
      (''sql'', ''sql_injection''), (''file integrity'', ''fim''),
      (''vulnerability'', ''vuln'')]"

definition extract_rule_groups :: "alert \<Rightarrow> string list" where
  "extract_rule_groups a =
     (let desc_lower = str_lower (rule_description a)
      in map snd (filter (\<lambda>(pattern, grp). contains pattern desc_lower) group_patterns))"

definition observable_keys :: "observable \<Rightarrow> string list" where
  "observable_keys obs =
     (if observable_type_value (obs_type obs) = ''ip'' then [''ip:'' @ obs_value obs]
      else if observable_type_value (obs_type obs) \<in> set [''hash_md5'', ''hash_sha256'', ''hash_sha1'']
        then [''hash:'' @ obs_value obs]
      else if observable_type_value (obs_type obs) = ''domain'' then [''domain:'' @ obs_value obs]
      else [])"

definition get_correlation_keys :: "alert \<Rightarrow> string list" where
  "get_correlation_keys a =
     (if agent_name (alert_source a) \<noteq> [] \<and> agent_name (alert_source a) \<noteq> ''unknown''
      then [''agent:'' @ agent_name (alert_source a)] else [])
     @ concat (map observable_keys (alert_observables a))
     @ map (\<lambda>grp. ''rulegroup:'' @ grp) (extract_rule_groups a)"

text \<open>\<open>groups\<close> is a \<open>defaultdict(list)\<close>: keys keep their insertion order.\<close>

fun group_append :: "string \<Rightarrow> alert \<Rightarrow> (string \<times> alert list) list \<Rightarrow> (string \<times> alert list) list" where
  "group_append k a [] = [(k, [a])]"
| "group_append k a ((k', as) # gs) =
     (if k' = k then (k', as @ [a]) # gs else (k', as) # group_append k a gs)"

definition group_alerts :: "alert list \<Rightarrow> (string \<times> alert list) list" where
  "group_alerts alerts =
     fold (\<lambda>a groups.
             (case get_correlation_keys a of
                k # ks \<Rightarrow> group_append k a groups
              | [] \<Rightarrow> group_append (''standalone_'' @ alert_id a) a groups))
          alerts []"

definition filter_by_time_window :: "correlator \<Rightarrow> alert list \<Rightarrow> alert list" where
  "filter_by_time_window c alerts =
     (case alerts of
        [] \<Rightarrow> []
      | a # as \<Rightarrow>
          (let most_recent = max_by_key alert_timestamp a as;
               cutoff = alert_timestamp most_recent - minutes (window_minutes c)
           in filter (\<lambda>x. alert_timestamp x \<ge> cutoff) alerts))"

fun unique_alerts :: "alert list \<Rightarrow> string set \<Rightarrow> alert list \<times> string set" where
  "unique_alerts [] seen = ([], seen)"
| "unique_alerts (a # as) seen =
     (if alert_id a \<notin> seen
      then (let (us, seen') = unique_alerts as (insert (alert_id a) seen) in (a # us, seen'))
      else unique_alerts as seen)"

fun merge_groups :: "correlator \<Rightarrow> alert list list \<Rightarrow> string set \<Rightarrow> alert list list" where
  "merge_groups c [] seen_alert_ids = []"
| "merge_groups c (grp # groups) seen_alert_ids =
     (let (unique, seen') = unique_alerts grp seen_alert_ids
      in if unique \<noteq> [] then
           (let windowed = filter_by_time_window c unique
            in if windowed \<noteq> [] then windowed # merge_groups c groups seen'
               else merge_groups c groups seen')
         else merge_groups c groups seen')"

definition merge_overlapping_groups :: "correlator \<Rightarrow> (string \<times> alert list) list \<Rightarrow> alert list list" where
  "merge_overlapping_groups c groups = merge_groups c (map snd groups) {}"

text \<open>\<open>Investigation()\<close> draws a fresh random id; the id of the k-th investigation
  created by one call of \<open>correlate\<close> is the parameter \<open>new_id k\<close>.\<close>

definition create_investigation :: "string \<Rightarrow> alert list \<Rightarrow> investigation" where
  "create_investigation fresh_id alerts =
     (let iv = fold (\<lambda>a i. add_alert i a) alerts
                  \<lparr>inv_id = fresh_id, inv_title = ''Untitled Investigation'',
                   inv_alerts = [], inv_observables = []\<rparr>
      in iv\<lparr>inv_title := generate_title iv\<rparr>)"

definition correlate_severity_order :: "string \<Rightarrow> int" where
  "correlate_severity_order v =
     (case map_of [(''critical'', 0), (''high'', 1), (''medium'', 2), (''low'', 3)] v of
        Some n \<Rightarrow> n | None \<Rightarrow> 4)"

definition correlate :: "correlator \<Rightarrow> (nat \<Rightarrow> string) \<Rightarrow> alert list \<Rightarrow> investigation list" where
  "correlate c new_id alerts =
     (if alerts = [] then []
      else
        (let groups = group_alerts alerts;
             merged_groups = merge_overlapping_groups c groups;
             investigations =
               map (\<lambda>(k, grp). create_investigation (new_id k) grp)
                   (zip [0..<length merged_groups] merged_groups)
         in sort_key (\<lambda>iv. correlate_severity_order (severity_value (max_severity iv)))
                     investigations))"

section \<open>Investigation queue (polling/queue.py)\<close>

definition TITLE_BLOCK_MINUTES :: int where
  "TITLE_BLOCK_MINUTES = 10"

record prioritized_investigation =
  priority :: int
  enqueued_at :: timestamp
  queued :: investigation

record investigation_queue =
  max_size :: int
  heap :: "prioritized_investigation list"
  seen_ids :: "string set"
  title_block_until :: "string \<rightharpoonup> timestamp"

fun severity_to_priority :: "severity \<Rightarrow> int" where
  "severity_to_priority CRITICAL = 0"
| "severity_to_priority HIGH = 1"
| "severity_to_priority MEDIUM = 2"
| "severity_to_priority LOW = 3"

text \<open>\<open>heapq.heappush\<close>: append, then sift the new item towards the root. The
  dataclass orders items by \<open>priority\<close> alone.\<close>

function siftdown ::
  "prioritized_investigation list \<Rightarrow> prioritized_investigation \<Rightarrow> nat \<Rightarrow> nat
     \<Rightarrow> prioritized_investigation list" where
  "siftdown h newitem startpos pos =
     (if pos > startpos then
        (let parentpos = (pos - 1) div 2;
             parent = h ! parentpos
         in if priority newitem < priority parent
            then siftdown (h[pos := parent]) newitem startpos parentpos
            else h[pos := newitem])
      else h[pos := newitem])"
  by pat_completeness auto
termination
  by (relation "measure (\<lambda>(h, newitem, startpos, pos). pos)") auto

definition heappush ::
  "prioritized_investigation list \<Rightarrow> prioritized_investigation \<Rightarrow> prioritized_investigation list" where
  "heappush h x = siftdown (h @ [x]) x 0 (length h)"

text \<open>\<open>InvestigationQueue.add\<close>, with the reading \<open>now\<close> of the clock.\<close>

definition add :: "investigation_queue \<Rightarrow> investigation \<Rightarrow> timestamp \<Rightarrow> bool \<times> investigation_queue" where
  "add q iv now =
     (if inv_id iv \<in> seen_ids q then (False, q)
      else
        (let title = inv_title iv;
             title_blocked =
               (title \<noteq> [] \<and>
                (case title_block_until q title of
                   None \<Rightarrow> False
                 | Some block_until \<Rightarrow> now < block_until))
         in if title_blocked then (False, q)
            else if int (length (heap q)) \<ge> max_size q then (False, q)
            else
              (let item = \<lparr>priority = severity_to_priority (max_severity iv),
                           enqueued_at = now, queued = iv\<rparr>;
                   q1 = q\<lparr>heap := heappush (heap q) item,
                          seen_ids := insert (inv_id iv) (seen_ids q)\<rparr>;
                   q2 = (if title \<noteq> []
                         then q1\<lparr>title_block_until :=
                                   (title_block_until q1)(title \<mapsto> now + minutes TITLE_BLOCK_MINUTES)\<rparr>
                         else q1)
               in (True, q2))))"

text \<open>The three reasons for which \<open>add\<close> rejects.\<close>

definition rejected :: "investigation_queue \<Rightarrow> investigation \<Rightarrow> timestamp \<Rightarrow> bool" where
  "rejected q iv now =
     (inv_id iv \<in> seen_ids q
      \<or> (inv_title iv \<noteq> [] \<and>
          (case title_block_until q (inv_title iv) of
             None \<Rightarrow> False
           | Some block_until \<Rightarrow> now < block_until))
      \<or> int (length (heap q)) \<ge> max_size q)"

text \<open>An alert of agent \<open>web-01\<close> with the given id and timestamp, and ids for the
  investigations of one \<open>correlate\<close> call.\<close>

definition web01_alert :: "string \<Rightarrow> timestamp \<Rightarrow> alert" where
  "web01_alert i t =
     \<lparr>alert_id = i, alert_timestamp = t, alert_severity = HIGH, alert_level = 10,
      alert_rule_id = Some ''5710'', rule_description = ''sshd: attempt to login using a non-existent user'',
      alert_source = \<lparr>agent_id = ''001'', agent_name = ''web-01'', agent_ip = None\<rparr>,
      alert_observables = []\<rparr>"

definition numbered_ids :: "nat \<Rightarrow> string" where
  "numbered_ids k = ''inv-'' @ str_of_nat k"

section \<open>Event store (persistence/models.py, persistence/store.py)\<close>

record event =
  event_id :: uuid
  aggregate_id :: uuid
  aggregate_type :: string
  event_type :: string
  version :: int
  event_timestamp :: timestamp
  event_data :: pydict
  event_metadata :: pydict
  idempotency_key :: "string option"

text \<open>
  The investigation read model. A column that the projector fills from an event
  payload holds whatever value the payload carries (\<open>PNone\<close> is SQL NULL); the
  checks of column types and lengths made by the database are not modelled.
\<close>

record investigation_row =
  rm_id :: uuid
  rm_title :: pyval
  rm_status :: string
  rm_phase :: pyval
  rm_created_at :: timestamp
  rm_updated_at :: timestamp
  rm_closed_at :: "timestamp option"
  rm_time_to_triage_seconds :: "int option"
  rm_time_to_verdict_seconds :: "int option"
  rm_alert_count :: int
  rm_observable_count :: int
  rm_malicious_count :: int
  rm_suspicious_count :: int
  rm_clean_count :: int
  rm_max_severity :: pyval
  rm_verdict_decision :: pyval
  rm_verdict_confidence :: pyval
  rm_verdict_reasoning :: pyval
  rm_thehive_case_id :: pyval
  rm_threat_actor :: pyval
  rm_tags :: "string list"

text \<open>
  The database as one session sees it: the rows of the open transaction and the rows
  as of the last commit (what \<open>rollback\<close> returns to). Of the read models only the
  \<open>investigations\<close> table is kept; the projector never reads the other tables back
  into an investigation row.
\<close>

record db =
  db_events :: "event list"
  db_investigations :: "uuid \<rightharpoonup> investigation_row"

record session =
  current :: db
  committed :: db

definition rollback :: "session \<Rightarrow> session" where
  "rollback s = s\<lparr>current := committed s\<rparr>"

definition commit :: "session \<Rightarrow> session" where
  "commit s = s\<lparr>committed := current s\<rparr>"

datatype store_error =
    ConcurrencyError uuid int int
  | IdempotencyError string
  | IntegrityError
  | MultipleResultsFound
  | ProjectionError py_error

definition events_of :: "session \<Rightarrow> uuid \<Rightarrow> event list" where
  "events_of s agg = filter (\<lambda>e. aggregate_id e = agg) (db_events (current s))"

text \<open>\<open>get_latest_version\<close>: the greatest version of the aggregate, \<open>version or 0\<close>.\<close>

definition get_latest_version :: "session \<Rightarrow> uuid \<Rightarrow> int" where
  "get_latest_version s agg =
     (case map version (events_of s agg) of
        [] \<Rightarrow> 0
      | v # vs \<Rightarrow> (let latest = fold max vs v in if latest \<noteq> 0 then latest else 0))"

definition get_events :: "session \<Rightarrow> uuid \<Rightarrow> int option \<Rightarrow> int option \<Rightarrow> event list" where
  "get_events s agg from_version to_version =
     sort_key version
       (filter (\<lambda>e. (case to_version of None \<Rightarrow> True | Some t \<Rightarrow> version e \<le> t))
          (filter (\<lambda>e. (case from_version of None \<Rightarrow> True | Some f \<Rightarrow> version e \<ge> f))
             (events_of s agg)))"

text \<open>\<open>scalar_one_or_none\<close> raises when more than one row matches.\<close>

definition get_by_idempotency_key :: "session \<Rightarrow> string \<Rightarrow> store_error + event option" where
  "get_by_idempotency_key s k =
     (case filter (\<lambda>e. idempotency_key e = Some k) (db_events (current s)) of
        [] \<Rightarrow> Inr None
      | [e] \<Rightarrow> Inr (Some e)
      | _ \<Rightarrow> Inl MultipleResultsFound)"

record append_args =
  arg_aggregate_id :: uuid
  arg_event_type :: string
  arg_data :: pydict
  arg_metadata :: "pydict option"
  arg_aggregate_type :: string
  arg_expected_version :: "int option"
  arg_idempotency_key :: "string option"

text \<open>
  \<open>EventStore.append\<close>. The fresh primary key (\<open>uuid4()\<close>) and the clock reading
  (\<open>datetime.utcnow()\<close>) are parameters. \<open>flush\<close> raises \<open>IntegrityError\<close> when
  the new row breaks a unique constraint: (aggregate\_id, version), the unique index on
  a non-null idempotency key, or the primary key; the handler rolls the session back
  and then maps the error as the source does.
\<close>

definition append ::
  "session \<Rightarrow> append_args \<Rightarrow> uuid \<Rightarrow> timestamp \<Rightarrow> (store_error + event) \<times> session" where
  "append s args new_event_id now =
     (let current_version = get_latest_version s (arg_aggregate_id args) in
      if (case arg_expected_version args of
            None \<Rightarrow> False | Some expected \<Rightarrow> current_version \<noteq> expected)
      then (Inl (ConcurrencyError (arg_aggregate_id args)
                   (the (arg_expected_version args)) current_version), s)
      else
        (let new_version = current_version + 1;
             key_given = (case arg_idempotency_key args of None \<Rightarrow> False | Some k \<Rightarrow> k \<noteq> []);
             existing = (if key_given
                         then get_by_idempotency_key s (the (arg_idempotency_key args))
                         else Inr None)
         in case existing of
              Inl err \<Rightarrow> (Inl err, s)
            | Inr (Some found) \<Rightarrow> (Inr found, s)
            | Inr None \<Rightarrow>
               (let new_event =
                      \<lparr>event_id = new_event_id,
                       aggregate_id = arg_aggregate_id args,
                       aggregate_type = arg_aggregate_type args,
                       event_type = arg_event_type args,
                       version = new_version,
                       event_timestamp = now,
                       event_data = arg_data args,
                       event_metadata =
                         (case arg_metadata args of None \<Rightarrow> [] | Some m \<Rightarrow> m),
                       idempotency_key = arg_idempotency_key args\<rparr>;
                    stored = db_events (current s)
                in if list_ex (\<lambda>e. aggregate_id e = aggregate_id new_event
                                     \<and> version e = new_version) stored
                   then (Inl (ConcurrencyError (arg_aggregate_id args) (new_version - 1)
                                (get_latest_version (rollback s) (arg_aggregate_id args))),
                         rollback s)
                   else if arg_idempotency_key args \<noteq> None
                           \<and> list_ex (\<lambda>e. idempotency_key e = arg_idempotency_key args) stored
                   then (if key_given
                         then (Inl (IdempotencyError (the (arg_idempotency_key args))), rollback s)
                         else (Inl IntegrityError, rollback s))
                   else if list_ex (\<lambda>e. event_id e = new_event_id) stored
                   then (Inl IntegrityError, rollback s)
                   else (Inr new_event,
                         s\<lparr>current := (current s)\<lparr>db_events := stored @ [new_event]\<rparr>\<rparr>))))"

text \<open>The unique index on the idempotency key, as a property of the stored events.\<close>

definition unique_idempotency_keys :: "session \<Rightarrow> bool" where
  "unique_idempotency_keys s =
     distinct (concat (map (\<lambda>e. case idempotency_key e of None \<Rightarrow> [] | Some k \<Rightarrow> [k])
                           (db_events (current s))))"

text \<open>A session holding one event of aggregate 1 (version 1) stored under the
  idempotency key \<open>k1\<close>, and a second \<open>append\<close> with the same key.\<close>

definition stored_event :: event where
  "stored_event =
     \<lparr>event_id = 10, aggregate_id = 1, aggregate_type = ''Investigation'',
      event_type = ''investigation.created'', version = 1, event_timestamp = 100,
      event_data = [(''title'', PStr ''Brute force'')], event_metadata = [],
      idempotency_key = Some ''k1''\<rparr>"

definition one_event_session :: session where
  "one_event_session =
     \<lparr>current = \<lparr>db_events = [stored_event], db_investigations = Map.empty\<rparr>,
      committed = \<lparr>db_events = [], db_investigations = Map.empty\<rparr>\<rparr>"

definition retry_args :: "int option \<Rightarrow> string option \<Rightarrow> append_args" where
  "retry_args expected key =
     \<lparr>arg_aggregate_id = 1, arg_event_type = ''investigation.created'',
      arg_data = [(''title'', PStr ''Brute force'')], arg_metadata = None,
      arg_aggregate_type = ''Investigation'', arg_expected_version = expected,
      arg_idempotency_key = key\<rparr>"

section \<open>Projector (persistence/events.py, persistence/projector.py)\<close>

definition INVESTIGATION_CREATED :: string where
  "INVESTIGATION_CREATED = ''investigation.created''"

definition INVESTIGATION_STARTED :: string where
  "INVESTIGATION_STARTED = ''investigation.started''"

definition INVESTIGATION_CLOSED :: string where
  "INVESTIGATION_CLOSED = ''investigation.closed''"

definition INVESTIGATION_PAUSED :: string where
  "INVESTIGATION_PAUSED = ''investigation.paused''"

definition INVESTIGATION_RESUMED :: string where
  "INVESTIGATION_RESUMED = ''investigation.resumed''"

definition INVESTIGATION_CANCELLED :: string where
  "INVESTIGATION_CANCELLED = ''investigation.cancelled''"

definition INVESTIGATION_ESCALATED :: string where
  "INVESTIGATION_ESCALATED = ''investigation.escalated''"

definition INVESTIGATION_AUTO_CLOSED :: string where
  "INVESTIGATION_AUTO_CLOSED = ''investigation.auto_closed''"

definition ALERT_CORRELATED :: string where
  "ALERT_CORRELATED = ''alert.correlated''"

definition OBSERVABLE_EXTRACTED :: string where
  "OBSERVABLE_EXTRACTED = ''observable.extracted''"

definition ENRICHMENT_COMPLETED :: string where
  "ENRICHMENT_COMPLETED = ''enrichment.completed''"

definition PHASE_CHANGED :: string where
  "PHASE_CHANGED = ''phase.changed''"

definition VERDICT_RENDERED :: string where
  "VERDICT_RENDERED = ''verdict.rendered''"

definition THEHIVE_CASE_CREATED :: string where
  "THEHIVE_CASE_CREATED = ''thehive.case_created''"

text \<open>
  \<open>InvestigationReadModel(id=aggregate_id)\<close>: the declared defaults; \<open>created_at\<close> and
  \<open>updated_at\<close> default to the clock at the time the row object is made.
\<close>

definition new_row :: "uuid \<Rightarrow> timestamp \<Rightarrow> investigation_row" where
  "new_row agg now =
     \<lparr>rm_id = agg, rm_title = PNone, rm_status = ''pending'', rm_phase = PStr ''triage'',
      rm_created_at = now, rm_updated_at = now, rm_closed_at = None,
      rm_time_to_triage_seconds = None, rm_time_to_verdict_seconds = None,
      rm_alert_count = 0, rm_observable_count = 0, rm_malicious_count = 0,
      rm_suspicious_count = 0, rm_clean_count = 0, rm_max_severity = PNone,
      rm_verdict_decision = PNone, rm_verdict_confidence = PNone,
      rm_verdict_reasoning = PNone, rm_thehive_case_id = PNone, rm_threat_actor = PNone,
      rm_tags = []\<rparr>"

definition get_or_create_investigation ::
  "timestamp \<Rightarrow> uuid \<Rightarrow> investigation_row option \<Rightarrow> investigation_row" where
  "get_or_create_investigation now agg found =
     (case found of None \<Rightarrow> new_row agg now | Some row \<Rightarrow> row)"

text \<open>\<open>int(delta.total_seconds())\<close>: whole seconds, truncated towards zero.\<close>

definition seconds_between :: "timestamp \<Rightarrow> timestamp \<Rightarrow> int" where
  "seconds_between later earlier =
     (let delta = later - earlier
      in if delta \<ge> 0 then delta div 1000000 else - ((- delta) div 1000000))"

definition in_dict :: "string \<Rightarrow> pydict \<Rightarrow> bool" where
  "in_dict k d = (map_of d k \<noteq> None)"

definition project_investigation_created :: "event \<Rightarrow> investigation_row \<Rightarrow> investigation_row" where
  "project_investigation_created e row =
     (let r1 = row\<lparr>rm_created_at := event_timestamp e, rm_updated_at := event_timestamp e,
                   rm_status := ''pending'', rm_phase := PStr ''triage''\<rparr>;
          r2 = (if in_dict ''title'' (event_data e)
                then r1\<lparr>rm_title := dict_get (event_data e) ''title''\<rparr> else r1)
      in if in_dict ''max_severity'' (event_data e)
         then r2\<lparr>rm_max_severity := dict_get (event_data e) ''max_severity''\<rparr> else r2)"

definition project_investigation_started :: "event \<Rightarrow> investigation_row \<Rightarrow> investigation_row" where
  "project_investigation_started e row =
     (let r1 = row\<lparr>rm_status := ''in_progress'', rm_updated_at := event_timestamp e\<rparr>
      in if in_dict ''title'' (event_data e)
         then r1\<lparr>rm_title := dict_get (event_data e) ''title''\<rparr> else r1)"

definition project_investigation_paused :: "event \<Rightarrow> investigation_row \<Rightarrow> investigation_row" where
  "project_investigation_paused e row =
     row\<lparr>rm_status := ''paused'', rm_updated_at := event_timestamp e\<rparr>"

definition project_investigation_resumed :: "event \<Rightarrow> investigation_row \<Rightarrow> investigation_row" where
  "project_investigation_resumed e row =
     row\<lparr>rm_status := ''in_progress'', rm_updated_at := event_timestamp e\<rparr>"

definition set_time_to_triage :: "event \<Rightarrow> investigation_row \<Rightarrow> investigation_row" where
  "set_time_to_triage e row =
     (if rm_time_to_triage_seconds row = None
      then row\<lparr>rm_time_to_triage_seconds :=
                 Some (seconds_between (event_timestamp e) (rm_created_at row))\<rparr>
      else row)"

definition project_investigation_cancelled :: "event \<Rightarrow> investigation_row \<Rightarrow> investigation_row" where
  "project_investigation_cancelled e row =
     set_time_to_triage e
       (row\<lparr>rm_status := ''cancelled'', rm_closed_at := Some (event_timestamp e),
            rm_updated_at := event_timestamp e, rm_phase := PStr ''closed''\<rparr>)"

definition severity_rank :: "string \<Rightarrow> int" where
  "severity_rank s =
     (case map_of [(''low'', 1), (''medium'', 2), (''high'', 3), (''critical'', 4)] (str_lower s) of
        Some n \<Rightarrow> n | None \<Rightarrow> 0)"

definition compare_severity :: "string \<Rightarrow> string \<Rightarrow> int" where
  "compare_severity s1 s2 =
     (let v1 = severity_rank s1; v2 = severity_rank s2
      in if v1 < v2 then - 1 else if v1 > v2 then 1 else 0)"

text \<open>
  \<open>_project_alert_correlated\<close>. \<open>_compare_severity\<close> calls \<open>lower()\<close> on both
  arguments, which only a string has: any other truthy severity, or a non-string
  \<open>max_severity\<close> already on the row, raises AttributeError after the counter and
  \<open>updated_at\<close> have been written.
\<close>

definition project_alert_correlated ::
  "event \<Rightarrow> investigation_row \<Rightarrow> investigation_row \<times> py_error option" where
  "project_alert_correlated e row =
     (let r1 = row\<lparr>rm_alert_count := rm_alert_count row + 1,
                   rm_updated_at := event_timestamp e\<rparr>;
          severity = dict_get (event_data e) ''severity''
      in if truthy severity then
           (if rm_max_severity r1 = PNone then (r1\<lparr>rm_max_severity := severity\<rparr>, None)
            else (case (severity, rm_max_severity r1) of
                    (PStr s1, PStr s2) \<Rightarrow>
                      (if compare_severity s1 s2 > 0
                       then (r1\<lparr>rm_max_severity := severity\<rparr>, None) else (r1, None))
                  | _ \<Rightarrow> (r1, Some AttributeError)))
         else (r1, None))"

definition project_observable_extracted :: "event \<Rightarrow> investigation_row \<Rightarrow> investigation_row" where
  "project_observable_extracted e row =
     row\<lparr>rm_observable_count := rm_observable_count row + 1,
         rm_updated_at := event_timestamp e\<rparr>"

definition project_enrichment_completed :: "event \<Rightarrow> investigation_row \<Rightarrow> investigation_row" where
  "project_enrichment_completed e row =
     (let r1 = row\<lparr>rm_updated_at := event_timestamp e\<rparr>;
          is_malicious = dict_get_default (event_data e) ''is_malicious'' (PBool False)
      in if truthy is_malicious
         then r1\<lparr>rm_malicious_count := rm_malicious_count r1 + 1\<rparr> else r1)"

definition project_verdict_rendered :: "event \<Rightarrow> investigation_row \<Rightarrow> investigation_row" where
  "project_verdict_rendered e row =
     row\<lparr>rm_updated_at := event_timestamp e, rm_phase := PStr ''verdict'',
         rm_verdict_decision := dict_get (event_data e) ''decision'',
         rm_verdict_confidence := dict_get (event_data e) ''confidence'',
         rm_time_to_verdict_seconds :=
           Some (seconds_between (event_timestamp e) (rm_created_at row))\<rparr>"

definition project_investigation_escalated :: "event \<Rightarrow> investigation_row \<Rightarrow> investigation_row" where
  "project_investigation_escalated e row =
     row\<lparr>rm_status := ''escalated'', rm_phase := PStr ''escalation'',
         rm_updated_at := event_timestamp e\<rparr>"

definition project_investigation_auto_closed :: "event \<Rightarrow> investigation_row \<Rightarrow> investigation_row" where
  "project_investigation_auto_closed e row =
     row\<lparr>rm_status := ''auto_closed'', rm_closed_at := Some (event_timestamp e),
         rm_updated_at := event_timestamp e, rm_phase := PStr ''closed''\<rparr>"

text \<open>\<open>(event.data.get(k) or "").lower()\<close>: a falsy value gives the empty string, a
  string its lower-case form, any other truthy value has no \<open>lower\<close>.\<close>

definition lowered_or_empty :: "pydict \<Rightarrow> string \<Rightarrow> py_error + string" where
  "lowered_or_empty d k =
     (let v = dict_get d k
      in if truthy v then (case v of PStr s \<Rightarrow> Inr (str_lower s) | _ \<Rightarrow> Inl AttributeError)
         else Inr [])"

definition project_investigation_closed ::
  "event \<Rightarrow> investigation_row \<Rightarrow> investigation_row \<times> py_error option" where
  "project_investigation_closed e row =
     (case lowered_or_empty (event_data e) ''resolution'' of
        Inl err \<Rightarrow> (row, Some err)
      | Inr resolution \<Rightarrow>
         (case lowered_or_empty (event_data e) ''verdict_decision'' of
            Inl err \<Rightarrow> (row, Some err)
          | Inr verdict_decision \<Rightarrow>
             (let thehive_case_id = dict_get (event_data e) ''thehive_case_id'';
                  r1 = (if truthy thehive_case_id
                        then row\<lparr>rm_thehive_case_id := thehive_case_id\<rparr> else row);
                  r2 = (if verdict_decision \<noteq> []
                        then r1\<lparr>rm_verdict_decision := PStr verdict_decision\<rparr> else r1);
                  r3 = (if truthy (rm_thehive_case_id r2) then r2\<lparr>rm_status := ''escalated''\<rparr>
                        else if contains ''rejected'' resolution then r2\<lparr>rm_status := ''rejected''\<rparr>
                        else if verdict_decision = ''close''
                                \<and> contains ''closed by ai verdict'' resolution
                          then r2\<lparr>rm_status := ''auto_closed''\<rparr>
                        else r2\<lparr>rm_status := ''closed''\<rparr>);
                  r4 = r3\<lparr>rm_closed_at := Some (event_timestamp e),
                           rm_updated_at := event_timestamp e, rm_phase := PStr ''closed''\<rparr>
              in (set_time_to_triage e r4, None))))"

definition project_thehive_case_created :: "event \<Rightarrow> investigation_row \<Rightarrow> investigation_row" where
  "project_thehive_case_created e row =
     row\<lparr>rm_thehive_case_id := dict_get (event_data e) ''case_id'',
         rm_status := ''escalated'', rm_phase := PStr ''escalation'',
         rm_updated_at := event_timestamp e\<rparr>"

definition project_phase_changed :: "event \<Rightarrow> investigation_row \<Rightarrow> investigation_row" where
  "project_phase_changed e row =
     (let new_phase = py_or (dict_get (event_data e) ''new_phase'')
                        (py_or (dict_get (event_data e) ''to_phase'')
                               (dict_get (event_data e) ''phase''));
          r1 = (if truthy new_phase then row\<lparr>rm_phase := new_phase\<rparr> else row);
          r2 = r1\<lparr>rm_updated_at := event_timestamp e\<rparr>
      in if new_phase = PStr ''verdict'' then set_time_to_triage e r2 else r2)"

definition project_human_review_requested :: "event \<Rightarrow> investigation_row \<Rightarrow> investigation_row" where
  "project_human_review_requested e row =
     (let r1 = row\<lparr>rm_phase := PStr ''human_review''\<rparr>;
          r2 = (if rm_status r1 = ''pending'' then r1\<lparr>rm_status := ''in_progress''\<rparr> else r1)
      in r2\<lparr>rm_updated_at := event_timestamp e\<rparr>)"

text \<open>
  \<open>Projector.project\<close> on the investigation row of the event's aggregate: the row
  before (\<open>None\<close>: no row yet), the row after, and the exception raised, if any. The
  analyzer events and \<open>HUMAN_DECISION_RECEIVED\<close> never load the investigation; an event
  type without a handler does nothing. \<open>now\<close> is the clock reading used when the
  handler has to create the row.
\<close>

definition project ::
  "timestamp \<Rightarrow> event \<Rightarrow> investigation_row option \<Rightarrow> investigation_row option \<times> py_error option" where
  "project now e found =
     (let row = get_or_create_investigation now (aggregate_id e) found;
          t = event_type e
      in if t = INVESTIGATION_CREATED then (Some (project_investigation_created e row), None)
         else if t = INVESTIGATION_STARTED then (Some (project_investigation_started e row), None)
         else if t = INVESTIGATION_PAUSED then (Some (project_investigation_paused e row), None)
         else if t = INVESTIGATION_RESUMED then (Some (project_investigation_resumed e row), None)
         else if t = INVESTIGATION_CANCELLED then (Some (project_investigation_cancelled e row), None)
         else if t = ALERT_CORRELATED then
           (case project_alert_correlated e row of (r, err) \<Rightarrow> (Some r, err))
         else if t = OBSERVABLE_EXTRACTED then (Some (project_observable_extracted e row), None)
         else if t = ENRICHMENT_COMPLETED then (Some (project_enrichment_completed e row), None)
         else if t = VERDICT_RENDERED then (Some (project_verdict_rendered e row), None)
         else if t = INVESTIGATION_ESCALATED then (Some (project_investigation_escalated e row), None)
         else if t = INVESTIGATION_AUTO_CLOSED then (Some (project_investigation_auto_closed e row), None)
         else if t = INVESTIGATION_CLOSED then
           (case project_investigation_closed e row of (r, err) \<Rightarrow> (Some r, err))
         else if t = THEHIVE_CASE_CREATED then (Some (project_thehive_case_created e row), None)
         else if t = PHASE_CHANGED then (Some (project_phase_changed e row), None)
         else if t = HUMAN_REVIEW_REQUESTED then (Some (project_human_review_requested e row), None)
         else (found, None))"

section \<open>Projecting store and replay (persistence/projector.py, tests/test\_integration\_recovery.py)\<close>

text \<open>
  \<open>ProjectingEventStore.append\<close>: append, then project the returned event in the same
  transaction. \<open>row_clock\<close> is the clock reading taken if the projection has to make
  the row.
\<close>

definition projecting_append ::
  "session \<Rightarrow> append_args \<Rightarrow> uuid \<Rightarrow> timestamp \<Rightarrow> timestamp \<Rightarrow> (store_error + event) \<times> session" where
  "projecting_append s args new_event_id now row_clock =
     (case append s args new_event_id now of
        (Inl err, s1) \<Rightarrow> (Inl err, s1)
      | (Inr e, s1) \<Rightarrow>
          (case project row_clock e (db_investigations (current s1) (aggregate_id e)) of
             (row, raised) \<Rightarrow>
               (let s2 = s1\<lparr>current := (current s1)
                            \<lparr>db_investigations :=
                               (db_investigations (current s1))(aggregate_id e := row)\<rparr>\<rparr>
                in case raised of
                     None \<Rightarrow> (Inr e, s2)
                   | Some err \<Rightarrow> (Inl (ProjectionError err), s2))))"

text \<open>The online path: a sequence of calls, each with its arguments, the fresh event
  id and the two clock readings; it ends at the first call that raises.\<close>

type_synonym append_call = "append_args \<times> uuid \<times> timestamp \<times> timestamp"

fun run_calls :: "session \<Rightarrow> append_call list \<Rightarrow> store_error + session" where
  "run_calls s [] = Inr s"
| "run_calls s ((args, new_event_id, now, row_clock) # calls) =
     (case projecting_append s args new_event_id now row_clock of
        (Inl err, s1) \<Rightarrow> Inl err
      | (Inr e, s1) \<Rightarrow> run_calls s1 calls)"

text \<open>A call is an idempotency hit when its non-empty key is already stored.\<close>

definition idempotent_hit :: "session \<Rightarrow> append_args \<Rightarrow> bool" where
  "idempotent_hit s args =
     (case arg_idempotency_key args of
        None \<Rightarrow> False
      | Some k \<Rightarrow> k \<noteq> [] \<and> list_ex (\<lambda>e. idempotency_key e = Some k) (db_events (current s)))"

fun hit_free :: "session \<Rightarrow> append_call list \<Rightarrow> bool" where
  "hit_free s [] = True"
| "hit_free s ((args, new_event_id, now, row_clock) # calls) =
     (\<not> idempotent_hit s args
      \<and> hit_free (snd (projecting_append s args new_event_id now row_clock)) calls)"

text \<open>Replay, as the recovery test does it: project the events in order, starting
  without a row; an exception ends the loop.\<close>

fun replay_from ::
  "timestamp \<Rightarrow> investigation_row option \<Rightarrow> event list
     \<Rightarrow> investigation_row option \<times> py_error option" where
  "replay_from row_clock found [] = (found, None)"
| "replay_from row_clock found (e # es) =
     (case project row_clock e found of
        (row, Some err) \<Rightarrow> (row, Some err)
      | (row, None) \<Rightarrow> replay_from row_clock row es)"

definition replay :: "timestamp \<Rightarrow> event list \<Rightarrow> investigation_row option \<times> py_error option" where
  "replay row_clock es = replay_from row_clock None es"

definition empty_session :: session where
  "empty_session =
     \<lparr>current = \<lparr>db_events = [], db_investigations = Map.empty\<rparr>,
      committed = \<lparr>db_events = [], db_investigations = Map.empty\<rparr>\<rparr>"

text \<open>Calls on aggregate 1 used below.\<close>

definition call_on_1 :: "string \<Rightarrow> pydict \<Rightarrow> string option \<Rightarrow> uuid \<Rightarrow> timestamp \<Rightarrow> append_call" where
  "call_on_1 etype data key new_event_id now =
     (\<lparr>arg_aggregate_id = 1, arg_event_type = etype, arg_data = data, arg_metadata = None,
       arg_aggregate_type = ''Investigation'', arg_expected_version = None,
       arg_idempotency_key = key\<rparr>, new_event_id, now, now + 1)"

definition created_data :: pydict where
  "created_data = [(''title'', PStr ''Brute force''), (''alert_ids'', PList [PStr ''a1'']),
                   (''max_severity'', PStr ''low'')]"

definition alert_first_calls :: "append_call list" where
  "alert_first_calls =
     [call_on_1 ALERT_CORRELATED [(''alert_id'', PStr ''a1''), (''severity'', PStr ''high'')]
        None 10 100]"

definition retried_created_calls :: "append_call list" where
  "retried_created_calls =
     [call_on_1 INVESTIGATION_CREATED created_data (Some ''inv-created-1'') 10 100,
      call_on_1 INVESTIGATION_STARTED [] (Some ''inv-started-1'') 11 110,
      call_on_1 INVESTIGATION_CREATED created_data (Some ''inv-created-1'') 12 120]"

definition plain_calls :: "append_call list" where
  "plain_calls =
     [call_on_1 INVESTIGATION_CREATED created_data (Some ''inv-created-1'') 10 100,
      call_on_1 INVESTIGATION_STARTED [] (Some ''inv-started-1'') 11 110,
      call_on_1 ALERT_CORRELATED [(''alert_id'', PStr ''a1''), (''severity'', PStr ''high'')]
        None 12 120]"

text \<open>The final-status rule of \<open>INVESTIGATION_CLOSED\<close> in the words of the
  specification: the resolution \<^emph>\<open>starts with\<close> ``closed by AI verdict''.\<close>

definition spec_final_status :: "bool \<Rightarrow> string \<Rightarrow> string \<Rightarrow> string" where
  "spec_final_status thehive_case_present resolution verdict_decision =
     (if thehive_case_present then ''escalated''
      else if contains ''rejected'' resolution then ''rejected''
      else if verdict_decision = ''close'' \<and> prefix ''closed by AI verdict'' resolution
        then ''auto_closed''
      else ''closed'')"

definition text_of :: "pyval \<Rightarrow> string" where
  "text_of v = (case v of PStr s \<Rightarrow> s | _ \<Rightarrow> [])"

definition closed_event :: "string \<Rightarrow> string \<Rightarrow> event" where
  "closed_event resolution verdict_decision =
     \<lparr>event_id = 20, aggregate_id = 1, aggregate_type = ''Investigation'',
      event_type = INVESTIGATION_CLOSED, version = 5, event_timestamp = 9000000,
      event_data = [(''status'', PStr ''closed''), (''resolution'', PStr resolution),
                    (''verdict_decision'', PStr verdict_decision),
                    (''thehive_case_id'', PNone), (''duration_seconds'', PInt 9)],
      event_metadata = [], idempotency_key = None\<rparr>"

text \<open>The rank of the severity held by a row (0 for no row, no value, or a value
  outside the four levels).\<close>

definition value_rank :: "pyval \<Rightarrow> int" where
  "value_rank v = (case v of PStr s \<Rightarrow> severity_rank s | _ \<Rightarrow> 0)"

definition row_rank :: "investigation_row option \<Rightarrow> int" where
  "row_rank found = (case found of None \<Rightarrow> 0 | Some row \<Rightarrow> value_rank (rm_max_severity row))"

definition event_on_1 :: "string \<Rightarrow> pydict \<Rightarrow> event" where
  "event_on_1 etype data =
     \<lparr>event_id = 30, aggregate_id = 1, aggregate_type = ''Investigation'',
      event_type = etype, version = 3, event_timestamp = 300, event_data = data,
      event_metadata = [], idempotency_key = None\<rparr>"

definition critical_row :: investigation_row where
  "critical_row = (new_row 1 100)\<lparr>rm_max_severity := PStr ''critical'', rm_alert_count := 1\<rparr>"

section \<open>Routing after the verdict\<close>

text \<open>
  C7. In a workflow state whose verdict carries a decision, \<open>route_from_verdict\<close>
  sends \<open>escalate\<close> to \<open>human_review\<close> and \<open>close\<close> to the close node
  (\<open>close_investigation\<close>); \<open>needs_more_info\<close> goes back to \<open>supervisor\<close> while
  the integer \<open>verdict_retry_count\<close> (0 when the key is absent) is below 2, and to
  \<open>human_review\<close> once it is 2 or more.
\<close>

theorem route_from_verdict_retry_cap:
  assumes "state ''verdict'' = Some (PDict verdict)"
      and "map_of verdict ''decision'' = Some (PStr d)"
      and "state ''verdict_retry_count'' = Some (PInt n)
           \<or> (state ''verdict_retry_count'' = None \<and> n = 0)"
  shows "route_from_verdict state =
           Inr (if d = ''escalate'' then ''human_review''
                else if d = ''close'' then ''close_investigation''
                else if d = ''needs_more_info'' then
                  (if n < 2 then ''supervisor'' else ''human_review'')
                else ''human_review'')"
  using assms
  by (auto simp: route_from_verdict_def state_verdict_def dict_get_default_def Let_def)

theorem route_from_verdict_retry_cap_witness:
  "route_from_verdict [''verdict'' \<mapsto> PDict [(''decision'', PStr ''needs_more_info'')],
                       ''verdict_retry_count'' \<mapsto> PInt 2] = Inr ''human_review''
   \<and> route_from_verdict [''verdict'' \<mapsto> PDict [(''decision'', PStr ''needs_more_info'')],
                       ''verdict_retry_count'' \<mapsto> PInt 1] = Inr ''supervisor''"
  using route_from_verdict_retry_cap
          [of "[''verdict'' \<mapsto> PDict [(''decision'', PStr ''needs_more_info'')],
                ''verdict_retry_count'' \<mapsto> PInt 2]"
              "[(''decision'', PStr ''needs_more_info'')]" "''needs_more_info''" 2]
        route_from_verdict_retry_cap
          [of "[''verdict'' \<mapsto> PDict [(''decision'', PStr ''needs_more_info'')],
                ''verdict_retry_count'' \<mapsto> PInt 1]"
              "[(''decision'', PStr ''needs_more_info'')]" "''needs_more_info''" 1]
  by simp

section \<open>Parser fall-back\<close>

theorem parse_failure_not_always_enrich:
  "decision_attempts_fail plain_text_lib ''Proceed to VERDICT''
   \<and> field_of (fst (parse_decision_response plain_text_lib ''Proceed to VERDICT'')) ''next_action''
       \<noteq> PStr ''ENRICH''
   \<and> verdict_attempts_fail plain_text_lib ''We should escalate''
   \<and> field_of (parse_verdict_response plain_text_lib ''We should escalate'') ''decision''
       \<noteq> PStr ''needs_more_info''"
  by (simp add: decision_attempts_fail_def verdict_attempts_fail_def plain_text_lib_def
        parse_decision_response_def parse_verdict_response_def decision_last_resort_def
        verdict_last_resort_def field_of_def dict_get_def contains_def sublist_code
        str_upper_def str_lower_def upper_char_def lower_char_def upper_letters_def
        lower_letters_def Let_def)

text \<open>
  C9 (amended). When all three extraction attempts fail, the supervisor parser
  returns the default dictionary in which \<open>next_action\<close> is the first of VERDICT,
  CLOSE, INVESTIGATE, CONTEXTUALIZE that occurs in the upper-cased response, and
  ENRICH when none occurs; it logs the first 1000 characters of the response and its
  length at error level. The verdict parser returns its default dictionary in which
  \<open>decision\<close> is \<open>escalate\<close> when the lower-cased response contains ``escalate'',
  \<open>close\<close> when it contains both ``close'' and ``false positive'', and
  \<open>needs_more_info\<close> otherwise.
\<close>

theorem parse_failure_defaults:
  "(decision_attempts_fail lib response_text \<longrightarrow>
      field_of (fst (parse_decision_response lib response_text)) ''next_action'' =
        PStr (if contains ''VERDICT'' (str_upper response_text) then ''VERDICT''
              else if contains ''CLOSE'' (str_upper response_text) then ''CLOSE''
              else if contains ''INVESTIGATE'' (str_upper response_text) then ''INVESTIGATE''
              else if contains ''CONTEXTUALIZE'' (str_upper response_text) then ''CONTEXTUALIZE''
              else ''ENRICH'')
      \<and> field_of (fst (parse_decision_response lib response_text)) ''action_reasoning'' =
          PStr ''Failed to parse LLM response''
      \<and> (Error, ''llm_response_parse_failed'',
           [(''response_text'', PStr (take 1000 response_text)),
            (''response_length'', PInt (int (length response_text)))])
          \<in> set (snd (parse_decision_response lib response_text)))
   \<and> (verdict_attempts_fail lib response_text \<longrightarrow>
      field_of (parse_verdict_response lib response_text) ''decision'' =
        PStr (if contains ''escalate'' (str_lower response_text) then ''escalate''
              else if contains ''close'' (str_lower response_text)
                      \<and> contains ''false positive'' (str_lower response_text) then ''close''
              else ''needs_more_info'')
      \<and> field_of (parse_verdict_response lib response_text) ''recommendation'' =
          PStr ''Manual review required - verdict parsing failed'')"
proof (intro conjI impI)
  assume f: "decision_attempts_fail lib response_text"
  then obtain e where e: "json_loads lib (sanitize_json_string response_text) = Inl e"
    by (auto simp: decision_attempts_fail_def isl_def)
  from f have r1: "re_fenced_json lib response_text = Some g \<Longrightarrow>
                   \<exists>m. json_loads lib (sanitize_json_string g) = Inl m" for g
    by (auto simp: decision_attempts_fail_def isl_def)
  from f have r2: "re_nested_object lib response_text = Some g \<Longrightarrow>
                   \<exists>m. json_loads lib (sanitize_json_string g) = Inl m" for g
    by (auto simp: decision_attempts_fail_def isl_def)
  have res: "fst (parse_decision_response lib response_text) = decision_last_resort response_text"
    using e r1 r2
    by (auto simp: parse_decision_response_def Let_def split: option.splits sum.splits prod.splits)
  show "field_of (fst (parse_decision_response lib response_text)) ''next_action'' =
        PStr (if contains ''VERDICT'' (str_upper response_text) then ''VERDICT''
              else if contains ''CLOSE'' (str_upper response_text) then ''CLOSE''
              else if contains ''INVESTIGATE'' (str_upper response_text) then ''INVESTIGATE''
              else if contains ''CONTEXTUALIZE'' (str_upper response_text) then ''CONTEXTUALIZE''
              else ''ENRICH'')"
    unfolding res by (simp add: decision_last_resort_def field_of_def dict_get_def)
  show "field_of (fst (parse_decision_response lib response_text)) ''action_reasoning'' =
          PStr ''Failed to parse LLM response''"
    unfolding res by (simp add: decision_last_resort_def field_of_def dict_get_def)
  show "(Error, ''llm_response_parse_failed'',
           [(''response_text'', PStr (take 1000 response_text)),
            (''response_length'', PInt (int (length response_text)))])
          \<in> set (snd (parse_decision_response lib response_text))"
    using e r1 r2
    by (auto simp: parse_decision_response_def Let_def split: option.splits sum.splits prod.splits)
next
  assume f: "verdict_attempts_fail lib response_text"
  then obtain e where e: "json_loads lib response_text = Inl e"
    by (auto simp: verdict_attempts_fail_def isl_def)
  from f have r1: "re_fenced_json lib response_text = Some g \<Longrightarrow>
                   \<exists>m. json_loads lib g = Inl m" for g
    by (auto simp: verdict_attempts_fail_def isl_def)
  from f have r2: "re_greedy_object lib response_text = Some g \<Longrightarrow>
                   \<exists>m. json_loads lib g = Inl m" for g
    by (auto simp: verdict_attempts_fail_def isl_def)
  have res: "parse_verdict_response lib response_text = verdict_last_resort response_text"
    using e r1 r2
    by (auto simp: parse_verdict_response_def Let_def split: option.splits sum.splits)
  show "field_of (parse_verdict_response lib response_text) ''decision'' =
        PStr (if contains ''escalate'' (str_lower response_text) then ''escalate''
              else if contains ''close'' (str_lower response_text)
                      \<and> contains ''false positive'' (str_lower response_text) then ''close''
              else ''needs_more_info'')"
    unfolding res by (simp add: verdict_last_resort_def field_of_def dict_get_def Let_def)
  show "field_of (parse_verdict_response lib response_text) ''recommendation'' =
          PStr ''Manual review required - verdict parsing failed''"
    unfolding res by (simp add: verdict_last_resort_def field_of_def dict_get_def Let_def)
qed

theorem parse_failure_defaults_witness:
  "decision_attempts_fail plain_text_lib ''no idea''
   \<and> field_of (fst (parse_decision_response plain_text_lib ''no idea'')) ''next_action''
       = PStr ''ENRICH''
   \<and> verdict_attempts_fail plain_text_lib ''no idea''
   \<and> field_of (parse_verdict_response plain_text_lib ''no idea'') ''decision''
       = PStr ''needs_more_info''"
proof -
  have a: "decision_attempts_fail plain_text_lib ''no idea''"
    by (simp add: decision_attempts_fail_def plain_text_lib_def)
  have b: "verdict_attempts_fail plain_text_lib ''no idea''"
    by (simp add: verdict_attempts_fail_def plain_text_lib_def)
  show ?thesis
    using a b parse_failure_defaults [of plain_text_lib "''no idea''"]
    by (simp add: contains_def sublist_code str_upper_def str_lower_def upper_char_def
          lower_char_def upper_letters_def lower_letters_def)
qed

section \<open>Dashboard decisions and the review node\<close>

lemma resume_payload_source:
  "\<exists>payload. resume_payload review = PDict payload
             \<and> map_of payload ''source'' = Some (PStr ''dashboard'')"
  by (simp add: resume_payload_def)

lemma handle_noninteractive_dashboard:
  assumes "\<not> (hil_backend = ''cli'' \<and> isatty)"
      and "map_of payload ''source'' = Some (PStr ''dashboard'')"
  shows "\<exists>decision feedback reviewer.
           handle_noninteractive_review hil_backend isatty line (Resumed (PDict payload))
             = Inr (decision, feedback, reviewer, False)"
  using assms by (auto simp: handle_noninteractive_review_def dict_get_def Let_def)

lemma review_endpoint_one_decision:
  assumes "review_endpoint action reviewer feedback d found = Inr events"
  shows "count_calls HUMAN_DECISION_RECEIVED events = 1"
  using assms
  by (cases action)
     (auto simp: review_endpoint_def count_calls_def HUMAN_DECISION_RECEIVED_def Let_def
           split: option.splits if_splits)

lemma count_calls_append:
  "count_calls t (xs @ ys) = count_calls t xs + count_calls t ys"
  by (simp add: count_calls_def)

lemma investigation_id_awaiting:
  "get_investigation_id_from_state UUID (state(''awaiting_human_approval'' \<mapsto> v))
     = get_investigation_id_from_state UUID state"
  by (simp add: get_investigation_id_from_state_def)

text \<open>
  The path through \<open>interrupt\<close>: when the node is resumed with a payload that carries
  \<open>source = "dashboard"\<close>, it makes no \<open>HUMAN_DECISION_RECEIVED\<close> call on the emitter,
  so that with the events appended by any successful dashboard handler (approve,
  reject or request-info) there is exactly one \<open>HUMAN_DECISION_RECEIVED\<close>, the
  handler's.
\<close>

lemma resume_from_dashboard_not_emitted:
  assumes r: "resumed_with run state (PDict payload)"
      and s: "map_of payload ''source'' = Some (PStr ''dashboard'')"
  shows "count_calls HUMAN_DECISION_RECEIVED (fst (human_review_node run state)) = 0"
proof -
  from r have mv: "models_valid run" and ir: "interrupt_result run = Resumed (PDict payload)"
    by (auto simp: resumed_with_def reaches_interrupt_def)
  from r obtain investigation_id where
    i: "get_investigation_id_from_state (uuid_of_str run) state = Inr investigation_id"
    by (auto simp: resumed_with_def reaches_interrupt_def split: sum.splits)
  define hil_backend where
    "hil_backend = (case run_config run of
                      None \<Rightarrow> ''cli''
                    | Some c \<Rightarrow> (case cfg_hil_backend c of
                                  None \<Rightarrow> ''cli''
                                | Some b \<Rightarrow> if b = [] then ''cli'' else b))"
  from r have nocli: "\<not> (hil_backend = ''cli'' \<and> stdin_isatty run)"
    by (auto simp: resumed_with_def reaches_interrupt_def hil_backend_def
             split: option.splits if_splits)
  from r have nosvc: "(case run_config run of None \<Rightarrow> None | Some c \<Rightarrow> cfg_hil_service c) = Some svc
                      \<Longrightarrow> \<not> is_connected svc" for svc
    by (auto simp: resumed_with_def reaches_interrupt_def split: option.splits)
  obtain decision feedback reviewer where h:
    "handle_noninteractive_review hil_backend (stdin_isatty run) (cli_input run)
       (interrupt_result run) = Inr (decision, feedback, reviewer, False)"
    using handle_noninteractive_dashboard [OF nocli s] ir by metis
  show ?thesis
    using mv h nosvc
    unfolding human_review_node_def hil_backend_def [symmetric] Let_def
              investigation_id_awaiting i
    by (auto simp: count_calls_def HUMAN_DECISION_RECEIVED_def HUMAN_REVIEW_REQUESTED_def
             split: option.splits prod.splits if_splits)
qed

lemma dashboard_resume_once:
  assumes "resumed_with run state (PDict payload)"
      and "map_of payload ''source'' = Some (PStr ''dashboard'')"
      and "review_endpoint action reviewer feedback d found = Inr events"
  shows "count_calls HUMAN_DECISION_RECEIVED (events @ fst (human_review_node run state)) = 1"
  using resume_from_dashboard_not_emitted [OF assms(1,2)] review_endpoint_one_decision [OF assms(3)]
  by (simp add: count_calls_append)

lemma inv_id_text_uuid: "uuid_of_hex inv_id_text = Some inv_uuid"
  by (simp add: uuid_of_hex_def inv_id_text_def inv_uuid_def hex_digit_def Let_def)

lemma approved_review_eval:
  "approved_review =
     \<lparr>review_investigation_id = inv_uuid, review_status = ''approved'',
      review_reviewer = PStr ''alice'', review_feedback = PNone\<rparr>"
  by (simp add: approved_review_def open_review_def project_human_decision_received_def
        dict_get_default_def dict_get_def Let_def)

lemma review_state_id:
  "get_investigation_id_from_state uuid_of_hex review_state = Inr (Some (UUIDRef inv_uuid))"
  "get_investigation_id_from_state uuid_of_hex dashboard_resume_state
     = Inr (Some (UUIDRef inv_uuid))"
  using inv_id_text_uuid
  by (simp_all add: get_investigation_id_from_state_def review_state_def
        dashboard_resume_state_def REVIEW_FLAG_def dict_get_def inv_id_text_def Let_def)

text \<open>The resume of the concrete approval: the node adds no call of its own.\<close>

lemma dashboard_resume_run_once:
  "resumed_with dashboard_resume_run dashboard_resume_state (resume_payload approved_review)
   \<and> count_calls HUMAN_DECISION_RECEIVED
        (fst (human_review_node dashboard_resume_run dashboard_resume_state)) = 0"
proof -
  have p: "resume_payload approved_review =
             PDict [(''decision'', PStr ''approve''), (''feedback'', PNone),
                    (''reviewer'', PStr ''alice''), (''source'', PStr ''dashboard'')]"
    by (simp add: resume_payload_def approved_review_eval)
  have u: "uuid_of_str dashboard_resume_run = uuid_of_hex"
    by (simp add: dashboard_resume_run_def)
  have r: "resumed_with dashboard_resume_run dashboard_resume_state
             (PDict [(''decision'', PStr ''approve''), (''feedback'', PNone),
                     (''reviewer'', PStr ''alice''), (''source'', PStr ''dashboard'')])"
    unfolding resumed_with_def reaches_interrupt_def u review_state_id
    by (simp add: dashboard_resume_run_def p)
  have s: "map_of [(''decision'', PStr ''approve''), (''feedback'', PNone),
                   (''reviewer'', PStr ''alice''), (''source'', PStr ''dashboard'')] ''source''
             = Some (PStr ''dashboard'')"
    by simp
  show ?thesis
    using resume_from_dashboard_not_emitted [OF r s] r by (simp add: p)
qed

section \<open>Correlation window\<close>

theorem correlate_window_cutoff_single_investigation:
  "map (\<lambda>i. map alert_id (inv_alerts i))
       (correlate \<lparr>window_minutes = 15\<rparr> numbered_ids
          [web01_alert ''a1'' (minutes 20), web01_alert ''a2'' 0]) = [[''a1'']]
   \<and> length (correlate \<lparr>window_minutes = 15\<rparr> numbered_ids
          [web01_alert ''a1'' (minutes 20), web01_alert ''a2'' 0]) \<noteq> 2"
  by (simp add: correlate_def web01_alert_def group_alerts_def get_correlation_keys_def
        extract_rule_groups_def group_patterns_def contains_def sublist_code str_lower_def
        lower_char_def upper_letters_def lower_letters_def merge_overlapping_groups_def
        filter_by_time_window_def minutes_def create_investigation_def add_alert_def
        generate_title_def Let_def max_severity_def correlate_severity_order_def)

lemma group_two_same_agent:
  assumes "agent_name (alert_source a) = ''web-01''"
      and "agent_name (alert_source b) = ''web-01''"
  shows "map snd (group_alerts [a, b]) = [[a, b]]"
  using assms by (simp add: group_alerts_def get_correlation_keys_def)

lemma create_investigation_alerts:
  "inv_alerts (create_investigation fresh_id alerts) = alerts"
proof -
  have "inv_alerts (fold (\<lambda>a i. add_alert i a) alerts iv) = inv_alerts iv @ alerts" for iv
    by (induction alerts arbitrary: iv) (simp_all add: add_alert_def)
  then show ?thesis by (simp add: create_investigation_def Let_def)
qed

text \<open>
  C5 (amended). For a batch of exactly two alerts with distinct ids that share the
  agent name \<open>web-01\<close>, with timestamps T and T minus 20 minutes, under a 15-minute
  window, \<open>correlate\<close> returns exactly one investigation; it contains only the alert
  with timestamp T, and the older alert is in no investigation. This holds for both
  orders of the batch.
\<close>

theorem correlate_window_cutoff:
  assumes "agent_name (alert_source newer) = ''web-01''"
      and "agent_name (alert_source older) = ''web-01''"
      and "alert_id newer \<noteq> alert_id older"
      and "alert_timestamp older = alert_timestamp newer - minutes 20"
      and "window_minutes c = 15"
  shows "map inv_alerts (correlate c new_id [newer, older]) = [[newer]]
         \<and> map inv_alerts (correlate c new_id [older, newer]) = [[newer]]"
proof -
  have neq: "newer \<noteq> older" using assms(3) by auto
  have m1: "merge_overlapping_groups c (group_alerts [newer, older]) = [[newer]]"
    unfolding merge_overlapping_groups_def group_two_same_agent [OF assms(1,2)]
    using assms(3,4,5) by (simp add: filter_by_time_window_def minutes_def Let_def)
  have m2: "merge_overlapping_groups c (group_alerts [older, newer]) = [[newer]]"
    unfolding merge_overlapping_groups_def group_two_same_agent [OF assms(2,1)]
    using assms(3,4,5) by (simp add: filter_by_time_window_def minutes_def Let_def)
  show ?thesis
    by (simp add: correlate_def m1 m2 Let_def create_investigation_alerts)
qed

theorem correlate_window_cutoff_witness:
  "agent_name (alert_source (web01_alert ''a1'' (minutes 20))) = ''web-01''
   \<and> alert_timestamp (web01_alert ''a2'' 0) = alert_timestamp (web01_alert ''a1'' (minutes 20)) - minutes 20
   \<and> map inv_alerts (correlate \<lparr>window_minutes = 15\<rparr> numbered_ids
          [web01_alert ''a1'' (minutes 20), web01_alert ''a2'' 0])
       = [[web01_alert ''a1'' (minutes 20)]]"
  using correlate_window_cutoff
          [of "web01_alert ''a1'' (minutes 20)" "web01_alert ''a2'' 0"
              "\<lparr>window_minutes = 15\<rparr>" numbered_ids]
  by (simp add: web01_alert_def)

section \<open>Rejected additions leave the queue unchanged\<close>

lemma add_accepts_otherwise:
  "\<not> rejected q iv now \<Longrightarrow> fst (add q iv now)"
  by (auto simp: add_def rejected_def Let_def split: option.splits)

text \<open>
  C10. Whenever \<open>InvestigationQueue.add\<close> rejects an investigation (its id is in
  \<open>seen_ids\<close>, or its non-empty title is blocked until a time after now, or the heap
  already holds \<open>max_size\<close> items), it returns \<open>False\<close> and the queue (heap,
  \<open>seen_ids\<close>, \<open>title_block_until\<close>, \<open>max_size\<close>) is the one before the call.
\<close>

theorem add_rejected_unchanged:
  assumes "rejected q iv now"
  shows "add q iv now = (False, q)"
  using assms by (auto simp: add_def rejected_def Let_def split: option.splits)

theorem add_rejected_unchanged_witness:
  "rejected \<lparr>max_size = 100, heap = [], seen_ids = {''inv-0''},
             title_block_until = Map.empty\<rparr>
            (create_investigation ''inv-0'' [web01_alert ''a1'' 0]) 5
   \<and> add \<lparr>max_size = 100, heap = [], seen_ids = {''inv-0''},
           title_block_until = Map.empty\<rparr>
          (create_investigation ''inv-0'' [web01_alert ''a1'' 0]) 5
       = (False, \<lparr>max_size = 100, heap = [], seen_ids = {''inv-0''},
                  title_block_until = Map.empty\<rparr>)"
proof -
  have r: "rejected \<lparr>max_size = 100, heap = [], seen_ids = {''inv-0''},
                     title_block_until = Map.empty\<rparr>
                    (create_investigation ''inv-0'' [web01_alert ''a1'' 0]) 5"
    by (simp add: rejected_def create_investigation_def add_alert_def Let_def)
  show ?thesis using r add_rejected_unchanged [OF r] by simp
qed

section \<open>Event store: idempotency and optimistic concurrency\<close>

lemma fold_max_upper:
  fixes v :: int
  shows "\<forall>x \<in> set (v # vs). x \<le> fold max vs v"
proof (induction vs arbitrary: v)
  case Nil
  then show ?case by simp
next
  case (Cons w ws)
  have ih: "\<forall>x \<in> set (max w v # ws). x \<le> fold max ws (max w v)"
    using Cons.IH [of "max w v"] .
  then have m: "max w v \<le> fold max ws (max w v)" by simp
  show ?case
  proof
    fix x assume "x \<in> set (v # w # ws)"
    then consider "x = v" | "x = w" | "x \<in> set ws" by auto
    then show "x \<le> fold max (w # ws) v"
    proof cases
      case 1 then show ?thesis using m by simp
    next
      case 2 then show ?thesis using m by simp
    next
      case 3 then show ?thesis using ih by simp
    qed
  qed
qed

lemma version_le_latest:
  assumes "e \<in> set (db_events (current s))"
  shows "version e \<le> get_latest_version s (aggregate_id e)"
proof -
  have m: "version e \<in> set (map version (events_of s (aggregate_id e)))"
    using assms by (auto simp: events_of_def)
  then obtain v vs where vs: "map version (events_of s (aggregate_id e)) = v # vs"
    by (cases "map version (events_of s (aggregate_id e))") auto
  have "version e \<le> fold max vs v" using fold_max_upper [of v vs] m vs by auto
  then show ?thesis by (simp add: get_latest_version_def vs Let_def)
qed

lemma no_version_conflict:
  "\<not> list_ex (\<lambda>e. aggregate_id e = agg \<and> version e = get_latest_version s agg + 1)
        (db_events (current s))"
proof
  assume "list_ex (\<lambda>e. aggregate_id e = agg \<and> version e = get_latest_version s agg + 1)
            (db_events (current s))"
  then obtain e where e: "e \<in> set (db_events (current s))" "aggregate_id e = agg"
      "version e = get_latest_version s agg + 1"
    by (auto simp: list_ex_iff)
  from version_le_latest [OF e(1)] e(2,3) show False by simp
qed

lemma unique_key_filter:
  assumes "distinct (concat (map (\<lambda>e. case idempotency_key e of None \<Rightarrow> [] | Some k \<Rightarrow> [k]) es))"
      and "x \<in> set es" and "idempotency_key x = Some k"
  shows "filter (\<lambda>e. idempotency_key e = Some k) es = [x]"
  using assms
proof (induction es)
  case Nil
  then show ?case by simp
next
  case (Cons a es)
  show ?case
  proof (cases "idempotency_key a = Some k")
    case True
    have "filter (\<lambda>e. idempotency_key e = Some k) es = []"
    proof (rule ccontr)
      assume "filter (\<lambda>e. idempotency_key e = Some k) es \<noteq> []"
      then obtain y where "y \<in> set es" "idempotency_key y = Some k"
        by (metis (mono_tags, lifting) filter_False)
      then have "k \<in> set (concat (map (\<lambda>e. case idempotency_key e of None \<Rightarrow> [] | Some k \<Rightarrow> [k]) es))"
        by force
      with Cons.prems(1) True show False by simp
    qed
    moreover have "x = a"
    proof (rule ccontr)
      assume "x \<noteq> a"
      with Cons.prems(2) have "x \<in> set es" by simp
      with Cons.prems(3) have
        "k \<in> set (concat (map (\<lambda>e. case idempotency_key e of None \<Rightarrow> [] | Some k \<Rightarrow> [k]) es))"
        by force
      with Cons.prems(1) True show False by simp
    qed
    ultimately show ?thesis using True by simp
  next
    case False
    with Cons.prems(2,3) have xin: "x \<in> set es" by auto
    have "distinct (concat (map (\<lambda>e. case idempotency_key e of None \<Rightarrow> [] | Some k \<Rightarrow> [k]) es))"
      using Cons.prems(1) by simp
    from Cons.IH [OF this xin Cons.prems(3)] False show ?thesis by simp
  qed
qed

lemma stored_key_lookup:
  assumes "unique_idempotency_keys s"
      and "found \<in> set (db_events (current s))"
      and "idempotency_key found = Some k"
  shows "get_by_idempotency_key s k = Inr (Some found)"
proof -
  have "filter (\<lambda>e. idempotency_key e = Some k) (db_events (current s)) = [found]"
    using unique_key_filter assms unfolding unique_idempotency_keys_def by blast
  then show ?thesis by (simp add: get_by_idempotency_key_def)
qed

theorem append_stored_key_concurrency_error:
  "idempotency_key stored_event = arg_idempotency_key (retry_args (Some 0) (Some ''k1''))
   \<and> stored_event \<in> set (db_events (current one_event_session))
   \<and> append one_event_session (retry_args (Some 0) (Some ''k1'')) 11 200
       = (Inl (ConcurrencyError 1 0 1), one_event_session)"
  by (simp add: append_def one_event_session_def stored_event_def retry_args_def
        get_latest_version_def events_of_def Let_def)

text \<open>
  C2 (amended). Let the stored events satisfy the unique index on the idempotency key
  and let \<open>append\<close> be called with a non-empty idempotency key that is already stored.
  When \<open>expected_version\<close> is absent or equal to the current version of the aggregate
  named in the call, the call returns the stored event unchanged and the session (all
  stored events) is the one before the call. When \<open>expected_version\<close> is given and
  differs from the current version, the call raises \<open>ConcurrencyError\<close> with the
  aggregate, the expected and the current version, although the key is stored, and the
  session is again unchanged.
\<close>

theorem append_stored_key_returns_existing:
  assumes "unique_idempotency_keys s"
      and "found \<in> set (db_events (current s))"
      and "idempotency_key found = Some k"
      and "k \<noteq> []"
      and "arg_idempotency_key args = Some k"
  shows "(arg_expected_version args = None
          \<or> arg_expected_version args = Some (get_latest_version s (arg_aggregate_id args))
            \<longrightarrow> append s args new_event_id now = (Inr found, s))
         \<and> (\<forall>expected. arg_expected_version args = Some expected
                        \<and> expected \<noteq> get_latest_version s (arg_aggregate_id args)
            \<longrightarrow> append s args new_event_id now
                  = (Inl (ConcurrencyError (arg_aggregate_id args) expected
                            (get_latest_version s (arg_aggregate_id args))), s))"
proof (intro conjI impI allI)
  assume v: "arg_expected_version args = None
             \<or> arg_expected_version args = Some (get_latest_version s (arg_aggregate_id args))"
  have g: "get_by_idempotency_key s k = Inr (Some found)"
    using stored_key_lookup [OF assms(1,2,3)] .
  show "append s args new_event_id now = (Inr found, s)"
    using assms(4,5) v g by (auto simp: append_def Let_def)
next
  fix expected
  assume "arg_expected_version args = Some expected
          \<and> expected \<noteq> get_latest_version s (arg_aggregate_id args)"
  then show "append s args new_event_id now
               = (Inl (ConcurrencyError (arg_aggregate_id args) expected
                         (get_latest_version s (arg_aggregate_id args))), s)"
    by (simp add: append_def Let_def)
qed

theorem append_stored_key_returns_existing_witness:
  "unique_idempotency_keys one_event_session
   \<and> stored_event \<in> set (db_events (current one_event_session))
   \<and> get_latest_version one_event_session 1 = 1
   \<and> append one_event_session (retry_args (Some 1) (Some ''k1'')) 11 200
       = (Inr stored_event, one_event_session)
   \<and> append one_event_session (retry_args None (Some ''k1'')) 11 200
       = (Inr stored_event, one_event_session)
   \<and> append one_event_session (retry_args (Some 5) (Some ''k1'')) 11 200
       = (Inl (ConcurrencyError 1 5 1), one_event_session)"
proof -
  have u: "unique_idempotency_keys one_event_session"
    by (simp add: unique_idempotency_keys_def one_event_session_def stored_event_def)
  have m: "stored_event \<in> set (db_events (current one_event_session))"
    by (simp add: one_event_session_def)
  have k: "idempotency_key stored_event = Some ''k1''"
    by (simp add: stored_event_def)
  have n: "''k1'' \<noteq> []" by simp
  have v: "get_latest_version one_event_session 1 = 1"
    by (simp add: get_latest_version_def events_of_def one_event_session_def stored_event_def)
  have a: "arg_idempotency_key (retry_args x (Some ''k1'')) = Some ''k1''"
      and g: "arg_aggregate_id (retry_args x (Some ''k1'')) = 1"
      and x: "arg_expected_version (retry_args x (Some ''k1'')) = x" for x
    by (simp_all add: retry_args_def)
  have r1: "append one_event_session (retry_args (Some 1) (Some ''k1'')) 11 200
              = (Inr stored_event, one_event_session)"
    using append_stored_key_returns_existing
            [OF u m k n a [of "Some 1"], where new_event_id = 11 and now = 200] v
    unfolding g x by simp
  have r2: "append one_event_session (retry_args None (Some ''k1'')) 11 200
              = (Inr stored_event, one_event_session)"
    using append_stored_key_returns_existing
            [OF u m k n a [of None], where new_event_id = 11 and now = 200]
    unfolding g x by simp
  have r3: "append one_event_session (retry_args (Some 5) (Some ''k1'')) 11 200
              = (Inl (ConcurrencyError 1 5 1), one_event_session)"
    using append_stored_key_returns_existing
            [OF u m k n a [of "Some 5"], where new_event_id = 11 and now = 200] v
    unfolding g x by simp
  show ?thesis using u m v r1 r2 r3 by blast
qed

theorem append_expected_version_no_new_version:
  "get_latest_version one_event_session 1 = 1
   \<and> append one_event_session (retry_args (Some 1) (Some ''k1'')) 11 200
       = (Inr stored_event, one_event_session)
   \<and> version stored_event \<noteq> get_latest_version one_event_session 1 + 1"
  by (simp add: append_def one_event_session_def stored_event_def retry_args_def
        get_latest_version_def get_by_idempotency_key_def events_of_def Let_def)

text \<open>
  C3 (amended). Let v be the latest version of the aggregate and let \<open>append\<close> be
  called with \<open>expected_version\<close> given.
  \<^item> If \<open>expected_version\<close> differs from v, the call raises \<open>ConcurrencyError\<close>
    carrying the aggregate, the expected and the actual version, and the session is
    unchanged.
  \<^item> If \<open>expected_version\<close> equals v, the idempotency key is absent or not stored
    yet and the primary key is fresh, the call succeeds and inserts exactly one new
    event, of version v + 1, after the stored ones.
  \<^item> If \<open>expected_version\<close> equals v and the call carries a non-empty idempotency key
    that is already stored (under the unique index), the call succeeds by returning
    the stored event: the session is unchanged, so no event of version v + 1 exists
    afterwards.
\<close>

theorem append_expected_version:
  assumes "arg_expected_version args = Some expected"
  shows "(expected \<noteq> get_latest_version s (arg_aggregate_id args) \<longrightarrow>
            append s args new_event_id now
              = (Inl (ConcurrencyError (arg_aggregate_id args) expected
                        (get_latest_version s (arg_aggregate_id args))), s))
         \<and> (expected = get_latest_version s (arg_aggregate_id args)
            \<and> (arg_idempotency_key args = None
                \<or> \<not> list_ex (\<lambda>e. idempotency_key e = arg_idempotency_key args)
                       (db_events (current s)))
            \<and> \<not> list_ex (\<lambda>e. event_id e = new_event_id) (db_events (current s)) \<longrightarrow>
            (\<exists>e. append s args new_event_id now
                    = (Inr e, s\<lparr>current := (current s)\<lparr>db_events := db_events (current s) @ [e]\<rparr>\<rparr>)
                  \<and> version e = get_latest_version s (arg_aggregate_id args) + 1
                  \<and> aggregate_id e = arg_aggregate_id args
                  \<and> event_type e = arg_event_type args
                  \<and> event_data e = arg_data args))
         \<and> (expected = get_latest_version s (arg_aggregate_id args)
            \<and> unique_idempotency_keys s
            \<and> found \<in> set (db_events (current s))
            \<and> idempotency_key found = Some k \<and> k \<noteq> []
            \<and> arg_idempotency_key args = Some k \<longrightarrow>
            append s args new_event_id now = (Inr found, s)
            \<and> \<not> list_ex (\<lambda>e. aggregate_id e = arg_aggregate_id args
                               \<and> version e = get_latest_version s (arg_aggregate_id args) + 1)
                   (db_events (current (snd (append s args new_event_id now)))))"
proof -
  let ?v = "get_latest_version s (arg_aggregate_id args)"
  have p1: "append s args new_event_id now
              = (Inl (ConcurrencyError (arg_aggregate_id args) expected ?v), s)"
    if "expected \<noteq> ?v"
    using assms that by (simp add: append_def Let_def)
  have p2: "\<exists>e. append s args new_event_id now
               = (Inr e, s\<lparr>current := (current s)\<lparr>db_events := db_events (current s) @ [e]\<rparr>\<rparr>)
             \<and> version e = ?v + 1
             \<and> aggregate_id e = arg_aggregate_id args
             \<and> event_type e = arg_event_type args
             \<and> event_data e = arg_data args"
    if h: "expected = ?v"
          "arg_idempotency_key args = None
           \<or> \<not> list_ex (\<lambda>e. idempotency_key e = arg_idempotency_key args)
                  (db_events (current s))"
          "\<not> list_ex (\<lambda>e. event_id e = new_event_id) (db_events (current s))"
  proof -
    have nk: "get_by_idempotency_key s k' = Inr None" if "arg_idempotency_key args = Some k'" for k'
    proof -
      from h(2) that have "\<not> list_ex (\<lambda>e. idempotency_key e = Some k') (db_events (current s))"
        by auto
      then have "filter (\<lambda>e. idempotency_key e = Some k') (db_events (current s)) = []"
        by (auto simp: list_ex_iff filter_empty_conv)
      then show ?thesis by (simp add: get_by_idempotency_key_def)
    qed
    show ?thesis
      using assms h nk no_version_conflict [of "arg_aggregate_id args" s]
      by (auto simp: append_def Let_def split: option.splits)
  qed
  have p3: "append s args new_event_id now = (Inr found, s)
            \<and> \<not> list_ex (\<lambda>e. aggregate_id e = arg_aggregate_id args \<and> version e = ?v + 1)
                   (db_events (current (snd (append s args new_event_id now))))"
    if h: "expected = ?v" "unique_idempotency_keys s" "found \<in> set (db_events (current s))"
          "idempotency_key found = Some k" "k \<noteq> []" "arg_idempotency_key args = Some k"
  proof -
    have g: "get_by_idempotency_key s k = Inr (Some found)"
      using stored_key_lookup [OF h(2,3,4)] .
    have r: "append s args new_event_id now = (Inr found, s)"
      using assms h(1,5,6) g by (simp add: append_def Let_def)
    show ?thesis
      using r no_version_conflict [of "arg_aggregate_id args" s] by simp
  qed
  show ?thesis using p1 p2 p3 by blast
qed

theorem append_expected_version_witness:
  "get_latest_version one_event_session 1 = 1
   \<and> (\<exists>e. append one_event_session (retry_args (Some 1) None) 11 200
            = (Inr e, one_event_session
                        \<lparr>current := (current one_event_session)
                           \<lparr>db_events := db_events (current one_event_session) @ [e]\<rparr>\<rparr>)
          \<and> version e = 2)
   \<and> append one_event_session (retry_args (Some 0) None) 11 200
       = (Inl (ConcurrencyError 1 0 1), one_event_session)
   \<and> unique_idempotency_keys one_event_session
   \<and> stored_event \<in> set (db_events (current one_event_session))
   \<and> append one_event_session (retry_args (Some 1) (Some ''k1'')) 11 200
       = (Inr stored_event, one_event_session)"
proof -
  have v: "get_latest_version one_event_session 1 = 1"
    by (simp add: get_latest_version_def events_of_def one_event_session_def stored_event_def)
  have i: "\<not> list_ex (\<lambda>e. event_id e = 11) (db_events (current one_event_session))"
    by (simp add: one_event_session_def stored_event_def)
  have u: "unique_idempotency_keys one_event_session"
    by (simp add: unique_idempotency_keys_def one_event_session_def stored_event_def)
  have m: "stored_event \<in> set (db_events (current one_event_session))"
    by (simp add: one_event_session_def)
  have sk: "idempotency_key stored_event = Some ''k1''"
    by (simp add: stored_event_def)
  have x: "arg_expected_version (retry_args (Some n) key) = Some n"
      and g: "arg_aggregate_id (retry_args (Some n) key) = 1"
      and k: "arg_idempotency_key (retry_args (Some n) key) = key" for n key
    by (simp_all add: retry_args_def)
  from append_expected_version
         [OF x [of 1 None], where s = one_event_session and new_event_id = 11 and now = 200] v i
  have s1: "\<exists>e. append one_event_session (retry_args (Some 1) None) 11 200
            = (Inr e, one_event_session
                        \<lparr>current := (current one_event_session)
                           \<lparr>db_events := db_events (current one_event_session) @ [e]\<rparr>\<rparr>)
          \<and> version e = 2"
    unfolding g k by auto
  from append_expected_version
         [OF x [of 0 None], where s = one_event_session and new_event_id = 11 and now = 200] v
  have s0: "append one_event_session (retry_args (Some 0) None) 11 200
       = (Inl (ConcurrencyError 1 0 1), one_event_session)"
    unfolding g k by auto
  from append_expected_version
         [OF x [of 1 "Some ''k1''"], where s = one_event_session and new_event_id = 11
            and now = 200 and found = stored_event and k = "''k1''"] v u m sk
  have s2: "append one_event_session (retry_args (Some 1) (Some ''k1'')) 11 200
       = (Inr stored_event, one_event_session)"
    unfolding g k by auto
  show ?thesis using v s1 s0 u m s2 by blast
qed
lemmas event_type_names =
  INVESTIGATION_CREATED_def INVESTIGATION_STARTED_def INVESTIGATION_CLOSED_def
  INVESTIGATION_PAUSED_def INVESTIGATION_RESUMED_def INVESTIGATION_CANCELLED_def
  INVESTIGATION_ESCALATED_def INVESTIGATION_AUTO_CLOSED_def ALERT_CORRELATED_def
  OBSERVABLE_EXTRACTED_def ENRICHMENT_COMPLETED_def PHASE_CHANGED_def VERDICT_RENDERED_def
  THEHIVE_CASE_CREATED_def HUMAN_REVIEW_REQUESTED_def

lemmas str_eval =
  contains_def sublist_code str_lower_def lower_char_def upper_letters_def lower_letters_def

section \<open>Final status of a closed investigation\<close>

theorem closed_status_contains_not_prefix:
  "map_option rm_status
     (fst (project 0 (closed_event ''Analyst feedback: closed by AI verdict earlier'' ''close'') None))
     = Some ''auto_closed''
   \<and> spec_final_status False ''Analyst feedback: closed by AI verdict earlier'' ''close''
     = ''closed''"
  by (simp add: project_def closed_event_def event_type_names project_investigation_closed_def
        lowered_or_empty_def dict_get_def get_or_create_investigation_def new_row_def
        set_time_to_triage_def spec_final_status_def str_eval Let_def)

lemma project_closed_row:
  assumes "event_type e = INVESTIGATION_CLOSED"
  shows "project now e found =
           (case project_investigation_closed e
                   (get_or_create_investigation now (aggregate_id e) found)
            of (r, err) \<Rightarrow> (Some r, err))"
  using assms by (simp add: project_def event_type_names Let_def)

lemma status_set_time_to_triage [simp]:
  "rm_status (set_time_to_triage e row) = rm_status row"
  by (simp add: set_time_to_triage_def)

text \<open>
  C6 (amended). For every \<open>INVESTIGATION_CLOSED\<close> event projected without an
  exception, the final status is: \<open>escalated\<close> when a TheHive case id is present (in
  the payload, or else already on the row); otherwise \<open>rejected\<close> when the
  lower-cased payload resolution contains ``rejected''; otherwise \<open>auto_closed\<close> when
  the lower-cased payload verdict decision equals \<open>close\<close> and the lower-cased
  resolution contains ``closed by ai verdict'' anywhere; otherwise \<open>closed\<close>.
\<close>

theorem closed_final_status:
  assumes "event_type e = INVESTIGATION_CLOSED"
      and "project now e found = (Some row, None)"
  shows "rm_status row =
           (let resolution = str_lower (text_of (dict_get (event_data e) ''resolution''));
                verdict_decision = str_lower (text_of (dict_get (event_data e) ''verdict_decision''));
                case_id = (if truthy (dict_get (event_data e) ''thehive_case_id'')
                           then dict_get (event_data e) ''thehive_case_id''
                           else (case found of None \<Rightarrow> PNone | Some old \<Rightarrow> rm_thehive_case_id old))
            in if truthy case_id then ''escalated''
               else if contains ''rejected'' resolution then ''rejected''
               else if verdict_decision = ''close'' \<and> contains ''closed by ai verdict'' resolution
                 then ''auto_closed''
               else ''closed'')"
proof -
  define old where "old = get_or_create_investigation now (aggregate_id e) found"
  have oid: "rm_thehive_case_id old = (case found of None \<Rightarrow> PNone | Some prev \<Rightarrow> rm_thehive_case_id prev)"
    by (simp add: old_def get_or_create_investigation_def new_row_def split: option.splits)
  from assms have p: "project_investigation_closed e old = (row, None)"
    unfolding project_closed_row [OF assms(1)] old_def by (auto split: prod.splits)
  have lo: "lowered_or_empty d k = Inr x \<Longrightarrow> x = str_lower (text_of (dict_get d k))" for d k x
    by (auto simp: lowered_or_empty_def text_of_def Let_def str_lower_def
             split: if_splits pyval.splits)
  from p obtain resolution vd where
    r: "lowered_or_empty (event_data e) ''resolution'' = Inr resolution" and
    v: "lowered_or_empty (event_data e) ''verdict_decision'' = Inr vd"
    by (auto simp: project_investigation_closed_def split: sum.splits)
  show ?thesis
    using p unfolding project_investigation_closed_def r v lo [OF r] lo [OF v]
    by (auto simp: Let_def oid split: if_splits)
qed


theorem closed_final_status_witness:
  "event_type (closed_event ''Closed by AI verdict - likely false positive'' ''close'')
     = INVESTIGATION_CLOSED
   \<and> snd (project 0 (closed_event ''Closed by AI verdict - likely false positive'' ''close'') None)
     = None
   \<and> rm_status (the (fst (project 0
        (closed_event ''Closed by AI verdict - likely false positive'' ''close'') None)))
     = ''auto_closed''"
proof -
  define ev where "ev = closed_event ''Closed by AI verdict - likely false positive'' ''close''"
  have t: "event_type ev = INVESTIGATION_CLOSED"
    by (simp add: ev_def closed_event_def)
  have p1: "snd (project 0 ev None) = None" and p2: "fst (project 0 ev None) \<noteq> None"
    by (simp_all add: project_def event_type_names project_investigation_closed_def
          lowered_or_empty_def dict_get_def ev_def closed_event_def Let_def)
  have p: "project 0 ev None = (Some (the (fst (project 0 ev None))), None)"
    using p1 p2 by (cases "project 0 ev None") auto
  have d: "event_data ev = [(''status'', PStr ''closed''),
             (''resolution'', PStr ''Closed by AI verdict - likely false positive''),
             (''verdict_decision'', PStr ''close''),
             (''thehive_case_id'', PNone), (''duration_seconds'', PInt 9)]"
    by (simp add: ev_def closed_event_def)
  have "rm_status (the (fst (project 0 ev None))) = ''auto_closed''"
    using closed_final_status [OF t p]
    by (simp add: d dict_get_def text_of_def str_eval Let_def)
  with t p show ?thesis unfolding ev_def by (metis snd_conv)
qed

section \<open>Severity of a row\<close>

theorem created_lowers_max_severity:
  "row_rank (Some critical_row) = 4
   \<and> row_rank (fst (project 0 (event_on_1 INVESTIGATION_CREATED created_data)
                     (Some critical_row))) = 1"
  by (simp add: row_rank_def value_rank_def severity_rank_def critical_row_def new_row_def
        project_def event_on_1_def project_investigation_created_def created_data_def
        in_dict_def dict_get_def get_or_create_investigation_def str_eval Let_def)

lemma severity_rank_nonneg: "0 \<le> severity_rank s"
  by (auto simp: severity_rank_def split: option.splits if_splits)

lemma value_rank_nonneg: "0 \<le> value_rank v"
  by (cases v) (simp_all add: value_rank_def severity_rank_nonneg)

lemma set_time_to_triage_severity [simp]:
  "rm_max_severity (set_time_to_triage e row) = rm_max_severity row"
  by (simp add: set_time_to_triage_def)

lemma handlers_keep_severity:
  "rm_max_severity (project_investigation_started e row) = rm_max_severity row"
  "rm_max_severity (project_investigation_paused e row) = rm_max_severity row"
  "rm_max_severity (project_investigation_resumed e row) = rm_max_severity row"
  "rm_max_severity (project_investigation_cancelled e row) = rm_max_severity row"
  "rm_max_severity (project_observable_extracted e row) = rm_max_severity row"
  "rm_max_severity (project_enrichment_completed e row) = rm_max_severity row"
  "rm_max_severity (project_verdict_rendered e row) = rm_max_severity row"
  "rm_max_severity (project_investigation_escalated e row) = rm_max_severity row"
  "rm_max_severity (project_investigation_auto_closed e row) = rm_max_severity row"
  "rm_max_severity (project_thehive_case_created e row) = rm_max_severity row"
  "rm_max_severity (project_phase_changed e row) = rm_max_severity row"
  "rm_max_severity (project_human_review_requested e row) = rm_max_severity row"
  "rm_max_severity (fst (project_investigation_closed e row)) = rm_max_severity row"
  "\<not> in_dict ''max_severity'' (event_data e) \<Longrightarrow>
     rm_max_severity (project_investigation_created e row) = rm_max_severity row"
  by (simp_all add: project_investigation_started_def project_investigation_paused_def
        project_investigation_resumed_def project_investigation_cancelled_def
        project_observable_extracted_def project_enrichment_completed_def
        project_verdict_rendered_def project_investigation_escalated_def
        project_investigation_auto_closed_def project_thehive_case_created_def
        project_phase_changed_def project_human_review_requested_def
        project_investigation_closed_def project_investigation_created_def Let_def
        split: sum.splits)

lemma alert_correlated_raises_severity:
  "value_rank (rm_max_severity row)
     \<le> value_rank (rm_max_severity (fst (project_alert_correlated e row)))"
proof -
  have c: "compare_severity s1 s2 > 0 \<Longrightarrow> severity_rank s2 \<le> severity_rank s1" for s1 s2
    by (simp add: compare_severity_def Let_def split: if_splits)
  show ?thesis
    using c value_rank_nonneg [of "dict_get (event_data e) ''severity''"]
    by (auto simp: project_alert_correlated_def Let_def value_rank_def
             split: pyval.splits)
qed



lemma fst_with_row:
  "fst (case p of (r, err) \<Rightarrow> (Some r, err)) = Some (fst p)"
  by (cases p) simp

text \<open>
  C8 (amended). Ranks are low 1, medium 2, high 3, critical 4, and 0 for anything else
  (also for a row that does not exist yet).
  \<^item> A projection step never replaces the row's \<open>max_severity\<close> by a value of
    strictly lower rank, unless the event is an \<open>INVESTIGATION_CREATED\<close> event that
    carries a \<open>max_severity\<close> field and the row exists already; in particular
    \<open>ALERT_CORRELATED\<close> with any severity never lowers it.
  \<^item> An \<open>INVESTIGATION_CREATED\<close> event that carries a \<open>max_severity\<close> field is
    projected without an error, and the row then holds exactly that value, whatever it
    held before.
\<close>

theorem max_severity_monotone:
  "(event_type e \<noteq> INVESTIGATION_CREATED \<or> \<not> in_dict ''max_severity'' (event_data e)
      \<or> found = None
    \<longrightarrow> row_rank found \<le> row_rank (fst (project now e found)))
   \<and> (event_type e = INVESTIGATION_CREATED \<and> in_dict ''max_severity'' (event_data e)
    \<longrightarrow> (\<exists>row. project now e found = (Some row, None)
               \<and> rm_max_severity row = dict_get (event_data e) ''max_severity''))"
proof (intro conjI impI)
  assume h: "event_type e \<noteq> INVESTIGATION_CREATED \<or> \<not> in_dict ''max_severity'' (event_data e)
             \<or> found = None"
  define old where "old = get_or_create_investigation now (aggregate_id e) found"
  have r: "row_rank found = value_rank (rm_max_severity old)"
    by (simp add: row_rank_def old_def get_or_create_investigation_def new_row_def value_rank_def
             split: option.splits)
  have k: "row_rank (Some x) = value_rank (rm_max_severity x)" for x
    by (simp add: row_rank_def)
  have z: "found = None \<Longrightarrow> value_rank (rm_max_severity old) = 0"
    by (simp add: old_def get_or_create_investigation_def new_row_def value_rank_def)
  have c: "event_type e = INVESTIGATION_CREATED \<Longrightarrow>
           value_rank (rm_max_severity old)
             \<le> value_rank (rm_max_severity (project_investigation_created e old))"
    using h handlers_keep_severity(14) [of e old] z
      value_rank_nonneg [of "rm_max_severity (project_investigation_created e old)"]
    by auto
  show "row_rank found \<le> row_rank (fst (project now e found))"
    using alert_correlated_raises_severity [of old e] c
    unfolding project_def old_def [symmetric] Let_def
    by (simp add: r k handlers_keep_severity(1-13) fst_with_row)
next
  assume "event_type e = INVESTIGATION_CREATED \<and> in_dict ''max_severity'' (event_data e)"
  then show "\<exists>row. project now e found = (Some row, None)
                  \<and> rm_max_severity row = dict_get (event_data e) ''max_severity''"
    by (simp add: project_def project_investigation_created_def Let_def)
qed

theorem max_severity_monotone_witness:
  "event_type (event_on_1 ALERT_CORRELATED [(''severity'', PStr ''low'')]) \<noteq> INVESTIGATION_CREATED
   \<and> row_rank (Some critical_row) = 4
   \<and> row_rank (fst (project 0 (event_on_1 ALERT_CORRELATED [(''severity'', PStr ''low'')])
                     (Some critical_row))) = 4
   \<and> in_dict ''max_severity'' (event_data (event_on_1 INVESTIGATION_CREATED created_data))
   \<and> (\<exists>row. project 0 (event_on_1 INVESTIGATION_CREATED created_data) (Some critical_row)
               = (Some row, None)
             \<and> rm_max_severity row = PStr ''low'')"
proof -
  define ev where "ev = event_on_1 ALERT_CORRELATED [(''severity'', PStr ''low'')]"
  define cr where "cr = event_on_1 INVESTIGATION_CREATED created_data"
  have t: "event_type ev \<noteq> INVESTIGATION_CREATED"
    by (simp add: ev_def event_on_1_def event_type_names)
  have a: "row_rank (Some critical_row) = 4"
    by (simp add: row_rank_def value_rank_def severity_rank_def critical_row_def str_eval)
  have b: "row_rank (fst (project 0 ev (Some critical_row))) \<le> 4"
    by (simp add: row_rank_def value_rank_def severity_rank_def critical_row_def new_row_def
          project_def ev_def event_on_1_def project_alert_correlated_def compare_severity_def
          dict_get_def get_or_create_investigation_def event_type_names str_eval Let_def)
  have m: "row_rank (Some critical_row) \<le> row_rank (fst (project 0 ev (Some critical_row)))"
    using max_severity_monotone [of ev "Some critical_row" 0] t by blast
  have ct: "event_type cr = INVESTIGATION_CREATED"
    by (simp add: cr_def event_on_1_def)
  have cd: "in_dict ''max_severity'' (event_data cr)"
    by (simp add: cr_def event_on_1_def created_data_def in_dict_def)
  have cv: "dict_get (event_data cr) ''max_severity'' = PStr ''low''"
    by (simp add: cr_def event_on_1_def created_data_def dict_get_def)
  have n: "\<exists>row. project 0 cr (Some critical_row) = (Some row, None)
                 \<and> rm_max_severity row = PStr ''low''"
    using max_severity_monotone [of cr "Some critical_row" 0] ct cd cv by simp
  have e4: "row_rank (fst (project 0 ev (Some critical_row))) = 4"
    using a b m by linarith
  show ?thesis using t a e4 cd n unfolding ev_def cr_def by blast
qed
section \<open>Replay and the online path\<close>

lemma insort_key_before_last:
  fixes f :: "'a \<Rightarrow> int"
  shows "f x \<le> f e \<Longrightarrow> insort_key f x (ys @ [e]) = insort_key f x ys @ [e]"
  by (induction ys) auto

lemma sort_key_append_max:
  fixes f :: "'a \<Rightarrow> int"
  shows "\<forall>x \<in> set xs. f x \<le> f e \<Longrightarrow> sort_key f (xs @ [e]) = sort_key f xs @ [e]"
proof (induction xs)
  case Nil
  then show ?case by simp
next
  case (Cons a xs)
  then have "sort_key f (xs @ [e]) = sort_key f xs @ [e]" by simp
  moreover have "f a \<le> f e" using Cons.prems by simp
  ultimately show ?case by (simp add: sort_key_simps insort_key_before_last)
qed

lemma get_events_all:
  "get_events s agg None None =
     sort_key version (filter (\<lambda>e. aggregate_id e = agg) (db_events (current s)))"
  by (simp add: get_events_def events_of_def)

lemma get_events_after_append:
  assumes "db_events (current s1) = db_events (current s) @ [e]"
      and "version e = get_latest_version s (aggregate_id e) + 1"
  shows "get_events s1 agg None None =
           (if agg = aggregate_id e then get_events s agg None None @ [e]
            else get_events s agg None None)"
proof (cases "agg = aggregate_id e")
  case True
  have "\<forall>x \<in> set (filter (\<lambda>x. aggregate_id x = agg) (db_events (current s))).
          version x \<le> version e"
    using version_le_latest [of _ s] True assms(2) by fastforce
  then show ?thesis
    using True by (simp add: get_events_all assms(1) sort_key_append_max)
next
  case False
  then show ?thesis by (simp add: get_events_all assms(1))
qed

lemma stored_key_found:
  assumes "get_by_idempotency_key s k = Inr (Some f)"
  shows "list_ex (\<lambda>e. idempotency_key e = Some k) (db_events (current s))"
proof -
  have "filter (\<lambda>e. idempotency_key e = Some k) (db_events (current s)) \<noteq> []"
    using assms by (auto simp: get_by_idempotency_key_def split: list.splits)
  then show ?thesis
    by (auto simp: list_ex_iff filter_empty_conv)
qed

lemma append_fresh:
  assumes "\<not> idempotent_hit s args"
      and "append s args new_event_id now = (Inr e, s1)"
  shows "s1 = s\<lparr>current := (current s)\<lparr>db_events := db_events (current s) @ [e]\<rparr>\<rparr>
         \<and> aggregate_id e = arg_aggregate_id args
         \<and> version e = get_latest_version s (arg_aggregate_id args) + 1"
proof (cases "arg_idempotency_key args")
  case None
  with assms(2) show ?thesis
    by (auto simp: append_def Let_def split: if_splits option.splits)
next
  case (Some k)
  show ?thesis
  proof (cases "k = []")
    case True
    with assms(2) Some show ?thesis
      by (auto simp: append_def Let_def split: if_splits option.splits)
  next
    case False
    with assms(1) Some have "\<not> list_ex (\<lambda>e. idempotency_key e = Some k) (db_events (current s))"
      by (simp add: idempotent_hit_def)
    with stored_key_found have nf: "get_by_idempotency_key s k \<noteq> Inr (Some f)" for f by blast
    with assms(2) Some False show ?thesis
      by (auto simp: append_def Let_def split: if_splits option.splits sum.splits)
  qed
qed

lemma project_with_row_clock:
  "project c e (Some r) = project c' e (Some r)"
  by (simp add: project_def get_or_create_investigation_def)

lemma project_with_row_some:
  "fst (project c e (Some r)) \<noteq> None"
  by (simp add: project_def Let_def fst_with_row)

lemma project_none_stays:
  assumes "fst (project c e None) = None"
  shows "project c' e None = (None, None)"
  using assms by (simp add: project_def Let_def fst_with_row split: if_splits)

lemma replay_from_row_some:
  "fst (replay_from c (Some r) es) \<noteq> None"
proof (induction es arbitrary: r)
  case Nil
  then show ?case by simp
next
  case (Cons e es)
  obtain row err where p: "project c e (Some r) = (row, err)" by (cases "project c e (Some r)")
  with project_with_row_some [of c e r] obtain r' where r': "row = Some r'" by auto
  show ?case using Cons.IH [of r'] p r' by (cases err) simp_all
qed

lemma replay_from_row_clock:
  "replay_from c (Some r) es = replay_from c' (Some r) es"
proof (induction es arbitrary: r)
  case Nil
  then show ?case by simp
next
  case (Cons e es)
  obtain row err where p: "project c e (Some r) = (row, err)" by (cases "project c e (Some r)")
  then have p': "project c' e (Some r) = (row, err)" using project_with_row_clock by metis
  from p project_with_row_some [of c e r] obtain r' where r': "row = Some r'" by auto
  show ?case using Cons.IH [of r'] p p' r' by (cases err) simp_all
qed

lemma replay_from_none_clock:
  assumes "replay_from c None es = (None, None)"
  shows "replay_from c' None es = (None, None)"
  using assms
proof (induction es)
  case Nil
  then show ?case by simp
next
  case (Cons e es)
  obtain row err where p: "project c e None = (row, err)" by (cases "project c e None")
  from Cons.prems p have e: "err = None" by (cases err) auto
  with Cons.prems p have rest: "replay_from c row es = (None, None)" by simp
  have "row = None"
  proof (rule ccontr)
    assume "row \<noteq> None"
    then obtain r where "row = Some r" by auto
    with rest replay_from_row_some [of c r es] show False by simp
  qed
  with p have "project c' e None = (None, None)" using project_none_stays [of c e c'] by simp
  with Cons.IH rest \<open>row = None\<close> show ?case by simp
qed

lemma replay_from_snoc:
  "replay_from c found (es @ [e]) =
     (case replay_from c found es of
        (row, Some err) \<Rightarrow> (row, Some err)
      | (row, None) \<Rightarrow> project c e row)"
proof (induction es arbitrary: found)
  case Nil
  show ?case by (cases "project c e found") (auto split: option.splits)
next
  case (Cons a es)
  show ?case using Cons.IH by (cases "project c a found") (auto split: option.splits)
qed

lemma projecting_append_consistent:
  assumes inv: "\<forall>agg. \<exists>c. replay c (get_events s agg None None)
                              = (db_investigations (current s) agg, None)"
      and nh: "\<not> idempotent_hit s args"
      and ok: "projecting_append s args new_event_id now row_clock = (Inr e, s1)"
  shows "\<forall>agg. \<exists>c. replay c (get_events s1 agg None None)
                      = (db_investigations (current s1) agg, None)"
proof
  fix agg
  from ok obtain s' row where
    ap: "append s args new_event_id now = (Inr e, s')" and
    pr: "project row_clock e (db_investigations (current s') (aggregate_id e)) = (row, None)" and
    s1: "s1 = s'\<lparr>current := (current s')
                 \<lparr>db_investigations := (db_investigations (current s'))(aggregate_id e := row)\<rparr>\<rparr>"
    by (auto simp: projecting_append_def Let_def split: prod.splits sum.splits option.splits)
  from append_fresh [OF nh ap] have
    s': "s' = s\<lparr>current := (current s)\<lparr>db_events := db_events (current s) @ [e]\<rparr>\<rparr>" and
    ver: "version e = get_latest_version s (aggregate_id e) + 1"
    by auto
  have ev: "db_events (current s1) = db_events (current s) @ [e]"
    by (simp add: s1 s')
  have rows: "db_investigations (current s1)
                = (db_investigations (current s))(aggregate_id e := row)"
    by (simp add: s1 s')
  have pr2: "project row_clock e (db_investigations (current s) (aggregate_id e)) = (row, None)"
    using pr by (simp add: s')
  note ge = get_events_after_append [OF ev ver, of agg]
  from inv obtain c where c: "replay c (get_events s agg None None)
                                = (db_investigations (current s) agg, None)" by blast
  show "\<exists>c. replay c (get_events s1 agg None None) = (db_investigations (current s1) agg, None)"
  proof (cases "agg = aggregate_id e")
    case False
    then show ?thesis using c ge rows by auto
  next
    case True
    show ?thesis
    proof (cases "db_investigations (current s) agg")
      case None
      with c have "replay_from c None (get_events s agg None None) = (None, None)"
        by (simp add: replay_def)
      then have "replay_from row_clock None (get_events s agg None None) = (None, None)"
        by (rule replay_from_none_clock)
      then have "replay row_clock (get_events s1 agg None None) = (row, None)"
        using ge True pr2 None by (simp add: replay_def replay_from_snoc)
      then show ?thesis using rows True by auto
    next
      case (Some r)
      with c have "replay_from c None (get_events s agg None None) = (Some r, None)"
        by (simp add: replay_def)
      moreover have "project c e (Some r) = (row, None)"
        using pr2 True Some project_with_row_clock [of c e r row_clock] by simp
      ultimately have "replay c (get_events s1 agg None None) = (row, None)"
        using ge True by (simp add: replay_def replay_from_snoc)
      then show ?thesis using rows True by auto
    qed
  qed
qed

lemma run_calls_consistent:
  assumes "\<forall>agg. \<exists>c. replay c (get_events s agg None None)
                         = (db_investigations (current s) agg, None)"
      and "hit_free s calls"
      and "run_calls s calls = Inr s1"
  shows "\<forall>agg. \<exists>c. replay c (get_events s1 agg None None)
                      = (db_investigations (current s1) agg, None)"
  using assms
proof (induction calls arbitrary: s)
  case Nil
  then show ?case by simp
next
  case (Cons call calls)
  obtain args new_event_id now row_clock where call: "call = (args, new_event_id, now, row_clock)"
    by (cases call) auto
  from Cons.prems(3) call obtain e s2 where
    pa: "projecting_append s args new_event_id now row_clock = (Inr e, s2)" and
    rest: "run_calls s2 calls = Inr s1"
    by (auto split: prod.splits sum.splits)
  from Cons.prems(2) call pa have nh: "\<not> idempotent_hit s args" and hf: "hit_free s2 calls"
    by auto
  from projecting_append_consistent [OF Cons.prems(1) nh pa]
  show ?case using Cons.IH [OF _ hf rest] by blast
qed

lemma empty_session_consistent:
  "\<forall>agg. \<exists>c. replay c (get_events empty_session agg None None)
                 = (db_investigations (current empty_session) agg, None)"
  by (simp add: empty_session_def get_events_all replay_def)

lemma created_first_clock:
  assumes "event_type first = INVESTIGATION_CREATED"
  shows "replay c (first # rest) = replay c' (first # rest)"
proof -
  have same: "project c first None = project c' first None"
    using assms
    by (simp add: project_def get_or_create_investigation_def new_row_def
          project_investigation_created_def Let_def)
  obtain r where a: "project c first None = (Some r, None)"
    using assms by (simp add: project_def Let_def)
  with same have b: "project c' first None = (Some r, None)" by simp
  have "replay c (first # rest) = replay_from c (Some r) rest"
    by (simp add: replay_def a)
  moreover have "replay c' (first # rest) = replay_from c' (Some r) rest"
    by (simp add: replay_def b)
  ultimately show ?thesis
    using replay_from_row_clock [of c r rest c'] by simp
qed

theorem replay_differs_from_online:
  "\<not> isl (run_calls empty_session alert_first_calls)
   \<and> map_option rm_created_at
        (db_investigations (current (projr (run_calls empty_session alert_first_calls))) 1)
       = Some 101
   \<and> map_option rm_created_at
        (fst (replay 500
               (get_events (projr (run_calls empty_session alert_first_calls)) 1 None None)))
       = Some 500
   \<and> \<not> isl (run_calls empty_session retried_created_calls)
   \<and> map_option rm_status
        (db_investigations (current (projr (run_calls empty_session retried_created_calls))) 1)
       = Some ''pending''
   \<and> map_option rm_status
        (fst (replay 500
               (get_events (projr (run_calls empty_session retried_created_calls)) 1 None None)))
       = Some ''in_progress''"
  by code_simp

text \<open>
  C1 (amended). For every aggregate whose event stream begins with
  \<open>INVESTIGATION_CREATED\<close>, and every sequence of successful
  \<open>ProjectingEventStore.append\<close> calls, starting from an empty database, in which no
  call is answered from an already stored idempotency key, replaying
  \<open>get_events(aggregate_id)\<close> through the projector from a blank read-model state
  (at any later clock reading) yields, without an exception, exactly the
  investigation row built by the online path.
\<close>

theorem replay_matches_online:
  assumes "run_calls empty_session calls = Inr s"
      and "hit_free empty_session calls"
      and "get_events s agg None None = first # rest"
      and "event_type first = INVESTIGATION_CREATED"
  shows "replay replay_clock (get_events s agg None None)
           = (db_investigations (current s) agg, None)"
proof -
  from run_calls_consistent [OF empty_session_consistent assms(2,1)]
  obtain c where "replay c (get_events s agg None None)
                    = (db_investigations (current s) agg, None)" by blast
  then show ?thesis
    using created_first_clock [OF assms(4), of replay_clock rest c] assms(3) by simp
qed

theorem replay_matches_online_witness:
  "\<not> isl (run_calls empty_session plain_calls)
   \<and> hit_free empty_session plain_calls
   \<and> event_type (hd (get_events (projr (run_calls empty_session plain_calls)) 1 None None))
       = INVESTIGATION_CREATED
   \<and> replay 500 (get_events (projr (run_calls empty_session plain_calls)) 1 None None)
       = (db_investigations (current (projr (run_calls empty_session plain_calls))) 1, None)"
proof -
  define s where "s = projr (run_calls empty_session plain_calls)"
  have a: "\<not> isl (run_calls empty_session plain_calls)"
    by code_simp
  then have r: "run_calls empty_session plain_calls = Inr s"
    by (simp add: s_def)
  have h: "hit_free empty_session plain_calls"
    by code_simp
  have g: "get_events (projr (run_calls empty_session plain_calls)) 1 None None \<noteq> []
           \<and> event_type (hd (get_events (projr (run_calls empty_session plain_calls)) 1 None None))
               = INVESTIGATION_CREATED"
    by code_simp
  then obtain first rest where
    f: "get_events s 1 None None = first # rest" and t: "event_type first = INVESTIGATION_CREATED"
    unfolding s_def [symmetric] by (cases "get_events s 1 None None") auto
  from replay_matches_online [OF r h f t, of 500] a h g
  show ?thesis unfolding s_def by simp
qed

end
